theory Spec2Isabelle
  imports Main "HOL-Library.Sublist"
begin

section \<open>The contract tools of chatbot.py\<close>

text \<open>
  A shallow embedding of the custom contract tools of
  \<^verbatim>\<open>agentkit/python/examples/langchain-cdp-chatbot/chatbot.py\<close>: the helper methods
  \<^verbatim>\<open>invoke_contract_function\<close> and \<^verbatim>\<open>read_contract_function\<close>, the wrappers for the
  contract operations, the small parser helpers and the list \<^verbatim>\<open>custom_contract_tools\<close>.

  A Python \<^verbatim>\<open>str\<close> is a \<^typ>\<open>string\<close>; a character is one code point below 256, so the
  model covers the inputs written in Latin-1. The wallet provider, the ABI encoder of web3
  and the string-to-double conversion are collaborators outside the file: they are
  parameters of every definition. An exception is a value \<open>Inl e\<close>; what a function returns
  is \<open>Inr v\<close>.
\<close>

subsection \<open>Python values and exceptions\<close>

datatype pyval =
    PyStr string
  | PyInt int
  | PyList "pyval list"
  | PyDict "(string \<times> pyval) list"

text \<open>An exception is its class name and the text that \<^verbatim>\<open>str(e)\<close> gives.\<close>

datatype exc = Exc string string

fun str_exc :: "exc \<Rightarrow> string" where
  "str_exc (Exc cls msg) = msg"

subsection \<open>\<^verbatim>\<open>str.strip()\<close> and \<^verbatim>\<open>str.split()\<close>\<close>

text \<open>
  \<^verbatim>\<open>str.isspace\<close> on one character: the white space of Unicode below 256, that is
  TAB, LF, VT, FF, CR, FS, GS, RS, US, SPACE, NEL and NBSP.
\<close>

definition isspace :: "char \<Rightarrow> bool" where
  "isspace c = (of_char c \<in> {9, 10, 11, 12, 13, 28, 29, 30, 31, 32, 133, 160 :: nat})"

definition strip :: "string \<Rightarrow> string" where
  "strip s = rev (dropWhile isspace (rev (dropWhile isspace s)))"

text \<open>
  \<^verbatim>\<open>s.split()\<close> with no separator: skip the white space, cut the run of other characters,
  go on behind it. No token is empty.
\<close>

function str_split :: "string \<Rightarrow> string list" where
  "str_split s =
     (case dropWhile isspace s of
        [] \<Rightarrow> []
      | c # cs \<Rightarrow>
          takeWhile (\<lambda>x. \<not> isspace x) (c # cs) #
            str_split (dropWhile (\<lambda>x. \<not> isspace x) (c # cs)))"
  by pat_completeness auto
termination
proof (relation "measure length")
  show "wf (measure length)" by simp
next
  fix s :: string and c cs
  assume a: "dropWhile isspace s = c # cs"
  have "\<not> isspace c" using a hd_dropWhile[of isspace s] by fastforce
  then have "length (dropWhile (\<lambda>x. \<not> isspace x) (c # cs)) \<le> length cs"
    by (simp add: length_dropWhile_le)
  also have "\<dots> < length (dropWhile isspace s)" using a by simp
  also have "\<dots> \<le> length s" by (rule length_dropWhile_le)
  finally show "(dropWhile (\<lambda>x. \<not> isspace x) (c # cs), s) \<in> measure length" by simp
qed

declare str_split.simps [simp del]

subsection \<open>\<^verbatim>\<open>int(s)\<close>\<close>

definition is_digit :: "char \<Rightarrow> bool" where
  "is_digit c = (48 \<le> (of_char c :: nat) \<and> (of_char c :: nat) \<le> 57)"

definition digit_val :: "char \<Rightarrow> nat" where
  "digit_val c = of_char c - 48"

definition digits_val :: "string \<Rightarrow> nat" where
  "digits_val s = foldl (\<lambda>a c. 10 * a + digit_val c) 0 s"

text \<open>
  The digits of an integer literal: at least one digit, and an underscore only between
  two digits.
\<close>

fun grouped_digits :: "string \<Rightarrow> bool" where
  "grouped_digits [] = False"
| "grouped_digits [c] = is_digit c"
| "grouped_digits (c # d # cs) =
     (is_digit c \<and> (if d = CHR ''_'' then grouped_digits cs else grouped_digits (d # cs)))"

definition split_sign :: "string \<Rightarrow> bool \<times> string" where
  "split_sign s =
     (case s of
        [] \<Rightarrow> (False, [])
      | c # cs \<Rightarrow>
          if c = CHR ''-'' then (True, cs)
          else if c = CHR ''+'' then (False, cs)
          else (False, c # cs))"

text \<open>
  \<^verbatim>\<open>int(s)\<close> in base ten, on a string with no white space (a token of \<^verbatim>\<open>split()\<close> has
  none, see \<open>str_split_tokens\<close>): \<open>None\<close> is the \<^verbatim>\<open>ValueError\<close>. The first argument is
  \<^verbatim>\<open>sys.get_int_max_str_digits()\<close>: a literal with more digits than a positive limit
  is a \<^verbatim>\<open>ValueError\<close> too; zero is no limit.
\<close>

definition py_int :: "nat \<Rightarrow> string \<Rightarrow> int option" where
  "py_int max_str_digits s =
     (let (neg, body) = split_sign s;
          ds = filter (\<lambda>c. c \<noteq> CHR ''_'') body
      in if \<not> grouped_digits body then None
         else if 0 < max_str_digits \<and> max_str_digits < length ds then None
         else Some (if neg then - int (digits_val ds) else int (digits_val ds)))"

subsection \<open>\<^verbatim>\<open>decimal.Decimal\<close> under the default context\<close>

text \<open>
  The arithmetic of the module \<^verbatim>\<open>decimal\<close> as its documentation and its Python
  implementation give it, for the three operations of the program: the constructor, the
  product and \<^verbatim>\<open>int\<close>, and the comparison with zero. The exponent of a literal is not
  bounded, as in that implementation; the C implementation of CPython raises
  \<^verbatim>\<open>InvalidOperation\<close> for a literal whose exponent lies beyond its range of some eighteen
  digits, which the model takes. The texts of the exceptions are those of CPython.

  A decimal is a sign, a coefficient and an exponent, an infinity, or a NaN (\<open>True\<close>: a
  signaling one). The sign and the payload of a NaN are dropped: nothing in the program
  reads them.
\<close>

datatype decimal =
    Finite bool nat int
  | Infinity bool
  | NaN bool

text \<open>The default context: 28 digits, round half even, and these bounds of the exponent.\<close>

definition prec :: int where "prec = 28"
definition Emax :: int where "Emax = 999999"
definition Emin :: int where "Emin = - 999999"
definition Etiny :: int where "Etiny = Emin - prec + 1"
definition Etop :: int where "Etop = Emax - prec + 1"

definition InvalidOperation :: exc where
  "InvalidOperation = Exc ''InvalidOperation'' ''[<class 'decimal.InvalidOperation'>]''"

definition ConversionSyntax :: exc where
  "ConversionSyntax = Exc ''InvalidOperation'' ''[<class 'decimal.ConversionSyntax'>]''"

definition Overflow :: exc where
  "Overflow = Exc ''Overflow'' ''[<class 'decimal.Overflow'>]''"

text \<open>The number of decimal digits of a coefficient: \<^verbatim>\<open>len(str(n))\<close>.\<close>

fun ndigits :: "nat \<Rightarrow> nat" where
  "ndigits n = (if n < 10 then 1 else Suc (ndigits (n div 10)))"

declare ndigits.simps [simp del]

text \<open>Drop the last \<open>k\<close> digits of a coefficient, rounding half to even.\<close>

definition round_half_even :: "nat \<Rightarrow> nat \<Rightarrow> nat" where
  "round_half_even c k =
     (let q = c div 10 ^ k; r = c mod 10 ^ k
      in if 10 ^ k < 2 * r \<or> (2 * r = 10 ^ k \<and> odd q) then q + 1 else q)"

text \<open>
  The rounding every arithmetic result goes through: to \<open>prec\<close> digits, to \<open>Etiny\<close> for a
  subnormal, and the trapped \<^verbatim>\<open>Overflow\<close> above \<open>Emax\<close>.
\<close>

definition dec_fix :: "bool \<Rightarrow> nat \<Rightarrow> int \<Rightarrow> exc + decimal" where
  "dec_fix sign c e =
     (if c = 0 then Inr (Finite sign 0 (min (max e Etiny) Emax))
      else
        let exp_min0 = int (ndigits c) + e - prec
        in if Etop < exp_min0 then Inl Overflow
           else
             let exp_min = (if exp_min0 < Etiny then Etiny else exp_min0)
             in if e < exp_min then
                  let q = round_half_even c (nat (exp_min - e));
                      carry = (prec < int (ndigits q));
                      coeff = (if carry then q div 10 else q);
                      exp_new = (if carry then exp_min + 1 else exp_min)
                  in if Etop < exp_new then Inl Overflow
                     else Inr (Finite sign coeff exp_new)
                else Inr (Finite sign c e))"

text \<open>\<^verbatim>\<open>a * b\<close>: a signaling NaN and \<open>Infinity * 0\<close> raise, a quiet NaN goes through.\<close>

fun dec_mul :: "decimal \<Rightarrow> decimal \<Rightarrow> exc + decimal" where
  "dec_mul (NaN sig) b =
     (if sig \<or> b = NaN True then Inl InvalidOperation else Inr (NaN False))"
| "dec_mul a (NaN sig) = (if sig then Inl InvalidOperation else Inr (NaN False))"
| "dec_mul (Infinity s1) (Infinity s2) = Inr (Infinity (s1 \<noteq> s2))"
| "dec_mul (Infinity s1) (Finite s2 c2 e2) =
     (if c2 = 0 then Inl InvalidOperation else Inr (Infinity (s1 \<noteq> s2)))"
| "dec_mul (Finite s1 c1 e1) (Infinity s2) =
     (if c1 = 0 then Inl InvalidOperation else Inr (Infinity (s1 \<noteq> s2)))"
| "dec_mul (Finite s1 c1 e1) (Finite s2 c2 e2) = dec_fix (s1 \<noteq> s2) (c1 * c2) (e1 + e2)"

text \<open>\<^verbatim>\<open>int(d)\<close>: the digits before the point, so the value truncated toward zero.\<close>

fun dec_to_int :: "decimal \<Rightarrow> exc + int" where
  "dec_to_int (Finite sign c e) =
     (let m = (if 0 \<le> e then c * 10 ^ nat e else c div 10 ^ nat (- e))
      in Inr (if sign then - int m else int m))"
| "dec_to_int (Infinity sign) = Inl (Exc ''OverflowError'' ''cannot convert Infinity to integer'')"
| "dec_to_int (NaN sig) = Inl (Exc ''ValueError'' ''cannot convert NaN to integer'')"

text \<open>\<^verbatim>\<open>d > Decimal(0)\<close>: an ordering comparison with a NaN raises.\<close>

fun dec_gt_zero :: "decimal \<Rightarrow> exc + bool" where
  "dec_gt_zero (Finite sign c e) = Inr (\<not> sign \<and> 0 < c)"
| "dec_gt_zero (Infinity sign) = Inr (\<not> sign)"
| "dec_gt_zero (NaN sig) = Inl InvalidOperation"

text \<open>\<^verbatim>\<open>Decimal(n)\<close> of a natural number is exact.\<close>

definition Decimal_nat :: "nat \<Rightarrow> decimal" where
  "Decimal_nat n = Finite False n 0"

text \<open>
  \<^verbatim>\<open>Decimal(s)\<close> of a string with no white space. Every underscore is removed first.
  A number is an optional sign, digits with an optional point among them (at least one
  digit), and an optional exponent; the coefficient is exact whatever its length.
\<close>

definition lower :: "char \<Rightarrow> char" where
  "lower c = (if 65 \<le> (of_char c :: nat) \<and> (of_char c :: nat) \<le> 90
              then char_of (of_char c + 32 :: nat) else c)"

definition parse_exponent :: "string \<Rightarrow> int option" where
  "parse_exponent s =
     (case s of
        [] \<Rightarrow> Some 0
      | c # cs \<Rightarrow>
          if lower c = CHR ''e'' then
            (let (neg, ds) = split_sign cs
             in if ds \<noteq> [] \<and> list_all is_digit ds
                then Some (if neg then - int (digits_val ds) else int (digits_val ds))
                else None)
          else None)"

definition parse_number :: "string \<Rightarrow> (nat \<times> int) option" where
  "parse_number s =
     (let intpart = takeWhile is_digit s;
          rest = dropWhile is_digit s;
          (fracpart, tl) =
            (case rest of
               [] \<Rightarrow> ([], [])
             | c # cs \<Rightarrow>
                 if c = CHR ''.'' then (takeWhile is_digit cs, dropWhile is_digit cs)
                 else ([], c # cs))
      in if intpart = [] \<and> fracpart = [] then None
         else
           (case parse_exponent tl of
              None \<Rightarrow> None
            | Some ex \<Rightarrow> Some (digits_val (intpart @ fracpart), ex - int (length fracpart))))"

definition Decimal_str :: "string \<Rightarrow> exc + decimal" where
  "Decimal_str s =
     (let (sign, body) = split_sign (filter (\<lambda>c. c \<noteq> CHR ''_'') s);
          low = map lower body
      in case parse_number body of
           Some (c, e) \<Rightarrow> Inr (Finite sign c e)
         | None \<Rightarrow>
             if low = ''inf'' \<or> low = ''infinity'' then Inr (Infinity sign)
             else if take 3 low = ''nan'' \<and> list_all is_digit (drop 3 low) then Inr (NaN False)
             else if take 4 low = ''snan'' \<and> list_all is_digit (drop 4 low) then Inr (NaN True)
             else Inl ConversionSyntax)"

text \<open>
  The expression \<^verbatim>\<open>int(value * Decimal(10**18))\<close>, which \<^verbatim>\<open>invoke_contract_function\<close>
  and \<^verbatim>\<open>parse_withdraw_args\<close> both evaluate.
\<close>

definition to_wei :: "decimal \<Rightarrow> exc + int" where
  "to_wei val =
     (case dec_mul val (Decimal_nat (10 ^ 18)) of
        Inl e \<Rightarrow> Inl e
      | Inr d \<Rightarrow> dec_to_int d)"

subsection \<open>Contract details\<close>

definition SMART_CONTRACT_ADDRESS :: string where
  "SMART_CONTRACT_ADDRESS = ''0xa633656593bB24252A55A468146fe9536eA899cB''"

definition SMART_CONTRACT_ABI :: pyval where
  "SMART_CONTRACT_ABI = PyList [
     PyDict [
       (''inputs'', PyList []),
       (''stateMutability'', PyStr ''nonpayable''),
       (''type'', PyStr ''constructor'')],
     PyDict [
       (''inputs'', PyList []),
       (''name'', PyStr ''deposit''),
       (''outputs'', PyList []),
       (''stateMutability'', PyStr ''payable''),
       (''type'', PyStr ''function'')],
     PyDict [
       (''inputs'', PyList [
          PyDict [(''internalType'', PyStr ''address''), (''name'', PyStr ''tokenAddress''),
                  (''type'', PyStr ''address'')],
          PyDict [(''internalType'', PyStr ''uint256''), (''name'', PyStr ''amount''),
                  (''type'', PyStr ''uint256'')]]),
       (''name'', PyStr ''depositERC20''),
       (''outputs'', PyList []),
       (''stateMutability'', PyStr ''nonpayable''),
       (''type'', PyStr ''function'')],
     PyDict [
       (''inputs'', PyList []),
       (''name'', PyStr ''destroyContract''),
       (''outputs'', PyList []),
       (''stateMutability'', PyStr ''nonpayable''),
       (''type'', PyStr ''function'')],
     PyDict [
       (''inputs'', PyList []),
       (''name'', PyStr ''getBalance''),
       (''outputs'', PyList [
          PyDict [(''internalType'', PyStr ''uint256''), (''name'', PyStr []),
                  (''type'', PyStr ''uint256'')]]),
       (''stateMutability'', PyStr ''view''),
       (''type'', PyStr ''function'')],
     PyDict [
       (''inputs'', PyList [
          PyDict [(''internalType'', PyStr ''address''), (''name'', PyStr ''token''),
                  (''type'', PyStr ''address'')]]),
       (''name'', PyStr ''getERC20Balance''),
       (''outputs'', PyList [
          PyDict [(''internalType'', PyStr ''uint256''), (''name'', PyStr []),
                  (''type'', PyStr ''uint256'')]]),
       (''stateMutability'', PyStr ''view''),
       (''type'', PyStr ''function'')],
     PyDict [
       (''inputs'', PyList []),
       (''name'', PyStr ''getCounter''),
       (''outputs'', PyList [
          PyDict [(''internalType'', PyStr ''uint256''), (''name'', PyStr []),
                  (''type'', PyStr ''uint256'')]]),
       (''stateMutability'', PyStr ''view''),
       (''type'', PyStr ''function'')],
     PyDict [
       (''inputs'', PyList []),
       (''name'', PyStr ''incrementCounter''),
       (''outputs'', PyList []),
       (''stateMutability'', PyStr ''nonpayable''),
       (''type'', PyStr ''function'')],
     PyDict [
       (''inputs'', PyList [
          PyDict [(''internalType'', PyStr ''address''), (''name'', PyStr ''to''),
                  (''type'', PyStr ''address'')],
          PyDict [(''internalType'', PyStr ''uint256''), (''name'', PyStr ''amount''),
                  (''type'', PyStr ''uint256'')]]),
       (''name'', PyStr ''withdraw''),
       (''outputs'', PyList []),
       (''stateMutability'', PyStr ''nonpayable''),
       (''type'', PyStr ''function'')],
     PyDict [
       (''inputs'', PyList [
          PyDict [(''internalType'', PyStr ''address''), (''name'', PyStr ''token''),
                  (''type'', PyStr ''address'')],
          PyDict [(''internalType'', PyStr ''address''), (''name'', PyStr ''to''),
                  (''type'', PyStr ''address'')],
          PyDict [(''internalType'', PyStr ''uint256''), (''name'', PyStr ''amount''),
                  (''type'', PyStr ''uint256'')]]),
       (''name'', PyStr ''withdrawERC20''),
       (''outputs'', PyList []),
       (''stateMutability'', PyStr ''nonpayable''),
       (''type'', PyStr ''function'')]]"

text \<open>
  What the descriptor says of a function: the entries of type \<^verbatim>\<open>function\<close>, by name, and
  the \<^verbatim>\<open>stateMutability\<close> of the first entry of a name.
\<close>

fun abi_entry_function :: "pyval \<Rightarrow> (string \<times> string) list" where
  "abi_entry_function (PyDict kv) =
     (if map_of kv ''type'' = Some (PyStr ''function'') then
        (case (map_of kv ''name'', map_of kv ''stateMutability'') of
           (Some (PyStr n), Some (PyStr m)) \<Rightarrow> [(n, m)]
         | _ \<Rightarrow> [])
      else [])"
| "abi_entry_function v = []"

fun abi_functions :: "pyval \<Rightarrow> (string \<times> string) list" where
  "abi_functions (PyList entries) = concat (map abi_entry_function entries)"
| "abi_functions v = []"

definition function_names :: "pyval \<Rightarrow> string list" where
  "function_names abi = map fst (abi_functions abi)"


subsection \<open>The collaborators and the state\<close>

text \<open>
  A call that leaves the program: the ABI encoding by web3, and the three methods of the
  wallet provider. The state is the calls made so far, oldest first, and the state
  \<open>chain\<close> of the world behind the wallet provider.
\<close>

datatype call =
    Encode_abi string "pyval list"
  | Send_transaction pyval
  | Wait_for_transaction_receipt string
  | Read_contract string string "pyval list"

record 'w state =
  calls :: "call list"
  chain :: 'w

text \<open>
  \<open>encode_abi\<close> is \<^verbatim>\<open>Web3().eth.contract(address, abi).encode_abi(function_name, args)\<close>;
  \<open>send_transaction\<close> returns the transaction hash as the f-string prints it. A \<^verbatim>\<open>float\<close>
  is kept as the decimal \<^verbatim>\<open>Decimal(str(x))\<close>, all the program reads of one; \<open>float\<close> is
  \<^verbatim>\<open>float(s)\<close> up to that, and which double a string rounds to is not modelled.
  \<open>int_max_str_digits\<close> is the interpreter's limit on the digits of an integer literal.
  The collaborators raise instances of \<^verbatim>\<open>Exception\<close>.
\<close>

record 'w env =
  encode_abi :: "string \<Rightarrow> pyval \<Rightarrow> string \<Rightarrow> pyval list \<Rightarrow> exc + string"
  send_transaction :: "pyval \<Rightarrow> 'w \<Rightarrow> (exc + string) \<times> 'w"
  wait_for_transaction_receipt :: "string \<Rightarrow> 'w \<Rightarrow> (exc + unit) \<times> 'w"
  read_contract :: "string \<Rightarrow> pyval \<Rightarrow> string \<Rightarrow> pyval list \<Rightarrow> 'w \<Rightarrow> (exc + pyval) \<times> 'w"
  float :: "string \<Rightarrow> exc + decimal"
  int_max_str_digits :: nat

type_synonym 'w action = "'w state \<Rightarrow> (exc + pyval) \<times> 'w state"

subsection \<open>Helper methods\<close>

text \<open>
  The dictionary \<^verbatim>\<open>tx_params\<close> of \<^verbatim>\<open>invoke_contract_function\<close>: the two keys, and the
  key \<^verbatim>\<open>value\<close> behind them when \<^verbatim>\<open>value > Decimal(0)\<close>.
\<close>

definition tx_request :: "string \<Rightarrow> decimal \<Rightarrow> exc + pyval" where
  "tx_request data val =
     (let tx_params = [(''to'', PyStr SMART_CONTRACT_ADDRESS), (''data'', PyStr data)]
      in case dec_gt_zero val of
           Inl e \<Rightarrow> Inl e
         | Inr positive \<Rightarrow>
             if positive then
               (case to_wei val of
                  Inl e \<Rightarrow> Inl e
                | Inr wei \<Rightarrow> Inr (PyDict (tx_params @ [(''value'', PyInt wei)])))
             else Inr (PyDict tx_params))"

text \<open>\<^verbatim>\<open>if args is None: args = []\<close>\<close>

definition default_args :: "pyval list option \<Rightarrow> pyval list" where
  "default_args args = (case args of None \<Rightarrow> [] | Some a \<Rightarrow> a)"

text \<open>The body of the \<^verbatim>\<open>try\<close> of \<^verbatim>\<open>invoke_contract_function\<close>.\<close>

definition invoke_try ::
  "'w env \<Rightarrow> string \<Rightarrow> pyval list option \<Rightarrow> decimal \<Rightarrow> 'w action" where
  "invoke_try env function_name args val st =
     (let args1 = default_args args;
          st1 = st\<lparr>calls := calls st @ [Encode_abi function_name args1]\<rparr>
      in case encode_abi env SMART_CONTRACT_ADDRESS SMART_CONTRACT_ABI function_name args1 of
           Inl e \<Rightarrow> (Inl e, st1)
         | Inr data \<Rightarrow>
             (case tx_request data val of
                Inl e \<Rightarrow> (Inl e, st1)
              | Inr tx_params \<Rightarrow>
                  (case send_transaction env tx_params (chain st1) of
                     (sent, c2) \<Rightarrow>
                       let st2 = \<lparr>calls = calls st1 @ [Send_transaction tx_params], chain = c2\<rparr>
                       in case sent of
                            Inl e \<Rightarrow> (Inl e, st2)
                          | Inr tx_hash \<Rightarrow>
                              (case wait_for_transaction_receipt env tx_hash c2 of
                                 (receipt, c3) \<Rightarrow>
                                   let st3 = \<lparr>calls = calls st2 @
                                                [Wait_for_transaction_receipt tx_hash],
                                              chain = c3\<rparr>
                                   in case receipt of
                                        Inl e \<Rightarrow> (Inl e, st3)
                                      | Inr u \<Rightarrow>
                                          (Inr (PyStr (''Successfully called '' @ function_name @
                                                  ''. Transaction hash: '' @ tx_hash)),
                                           st3)))))"

text \<open>\<^verbatim>\<open>except Exception as e\<close>: the exception becomes the text returned.\<close>

definition invoke_contract_function ::
  "'w env \<Rightarrow> string \<Rightarrow> pyval list option \<Rightarrow> decimal \<Rightarrow> 'w action" where
  "invoke_contract_function env function_name args val st =
     (case invoke_try env function_name args val st of
        (Inl e, st1) \<Rightarrow>
          (Inr (PyStr (''Error calling '' @ function_name @ '': '' @ str_exc e)), st1)
      | (Inr r, st1) \<Rightarrow> (Inr r, st1))"

definition read_try :: "'w env \<Rightarrow> string \<Rightarrow> pyval list option \<Rightarrow> 'w action" where
  "read_try env function_name args st =
     (let args1 = default_args args
      in case read_contract env SMART_CONTRACT_ADDRESS SMART_CONTRACT_ABI function_name args1
                (chain st) of
           (result, c1) \<Rightarrow>
             (result,
              \<lparr>calls = calls st @ [Read_contract SMART_CONTRACT_ADDRESS function_name args1],
                chain = c1\<rparr>))"

definition read_contract_function :: "'w env \<Rightarrow> string \<Rightarrow> pyval list option \<Rightarrow> 'w action" where
  "read_contract_function env function_name args st =
     (case read_try env function_name args st of
        (Inl e, st1) \<Rightarrow> (Inr (PyStr (''Error reading from contract: '' @ str_exc e)), st1)
      | (Inr result, st1) \<Rightarrow> (Inr result, st1))"

subsection \<open>Wrappers for contract ops\<close>

text \<open>The default arguments are written out: \<^verbatim>\<open>args=None\<close>, \<^verbatim>\<open>value=Decimal(0)\<close>.\<close>

definition deposit_to_contract :: "'w env \<Rightarrow> decimal \<Rightarrow> 'w action" where
  "deposit_to_contract env value_in_eth =
     invoke_contract_function env ''deposit'' None value_in_eth"

definition deposit_erc20_to_contract :: "'w env \<Rightarrow> string \<Rightarrow> int \<Rightarrow> 'w action" where
  "deposit_erc20_to_contract env token_address amount =
     invoke_contract_function env ''depositERC20''
       (Some [PyStr token_address, PyInt amount]) (Decimal_nat 0)"

definition increment_counter :: "'w env \<Rightarrow> 'w action" where
  "increment_counter env =
     invoke_contract_function env ''incrementCounter'' None (Decimal_nat 0)"

definition get_contract_balance :: "'w env \<Rightarrow> 'w action" where
  "get_contract_balance env = read_contract_function env ''getBalance'' None"

definition get_contract_counter :: "'w env \<Rightarrow> 'w action" where
  "get_contract_counter env = read_contract_function env ''getCounter'' None"

definition get_contract_erc20_balance :: "'w env \<Rightarrow> string \<Rightarrow> 'w action" where
  "get_contract_erc20_balance env token_address =
     read_contract_function env ''getERC20Balance'' (Some [PyStr token_address])"

definition withdraw_from_contract :: "'w env \<Rightarrow> string \<Rightarrow> int \<Rightarrow> 'w action" where
  "withdraw_from_contract env to_address amount_in_wei =
     invoke_contract_function env ''withdraw''
       (Some [PyStr to_address, PyInt amount_in_wei]) (Decimal_nat 0)"

definition withdraw_erc20_from_contract ::
  "'w env \<Rightarrow> string \<Rightarrow> string \<Rightarrow> int \<Rightarrow> 'w action" where
  "withdraw_erc20_from_contract env token_address to_address amount =
     invoke_contract_function env ''withdrawERC20''
       (Some [PyStr token_address, PyStr to_address, PyInt amount]) (Decimal_nat 0)"

subsection \<open>Small parser helpers for tools\<close>

definition parse_deposit_erc20_args :: "'w env \<Rightarrow> string \<Rightarrow> 'w action" where
  "parse_deposit_erc20_args env input_str st =
     (let parts = str_split (strip input_str)
      in if length parts \<noteq> 2 then
           (Inr (PyStr ''Error: Provide 'TOKEN_ADDRESS AMOUNT' separated by a space.''), st)
         else
           let token_addr = parts ! 0; amount_str = parts ! 1
           in case py_int (int_max_str_digits env) amount_str of
                None \<Rightarrow> (Inr (PyStr ''Error: AMOUNT must be an integer.''), st)
              | Some amount_int \<Rightarrow> deposit_erc20_to_contract env token_addr amount_int st)"

definition parse_erc20_balance_args :: "'w env \<Rightarrow> string \<Rightarrow> 'w action" where
  "parse_erc20_balance_args env input_str st =
     (let token_addr = strip input_str
      in if token_addr = [] then (Inr (PyStr ''Error: Provide a valid token address.''), st)
         else get_contract_erc20_balance env token_addr st)"

text \<open>
  The bare \<^verbatim>\<open>except\<close> of \<^verbatim>\<open>parse_withdraw_args\<close> takes every exception of the two lines
  of its \<^verbatim>\<open>try\<close>, those of \<^verbatim>\<open>Decimal(s)\<close>, of the product and of \<^verbatim>\<open>int\<close>.
\<close>

definition parse_withdraw_args :: "'w env \<Rightarrow> string \<Rightarrow> 'w action" where
  "parse_withdraw_args env input_str st =
     (let parts = str_split (strip input_str)
      in if length parts \<noteq> 2 then
           (Inr (PyStr (''Error: Provide 'TO_ADDRESS AMOUNT_IN_ETH'. Example: '' @
                        '''0xReceiver 0.01'' @ [CHR 0x27])), st)
         else
           let to_addr = parts ! 0; amount_eth_str = parts ! 1
           in case (case Decimal_str amount_eth_str of
                      Inl e \<Rightarrow> Inl e
                    | Inr val \<Rightarrow> to_wei val) of
                Inl e \<Rightarrow> (Inr (PyStr ''Error: Amount must be a valid decimal, e.g. 0.01''), st)
              | Inr amount_wei \<Rightarrow> withdraw_from_contract env to_addr amount_wei st)"

definition parse_withdraw_erc20_args :: "'w env \<Rightarrow> string \<Rightarrow> 'w action" where
  "parse_withdraw_erc20_args env input_str st =
     (let parts = str_split (strip input_str)
      in if length parts \<noteq> 3 then
           (Inr (PyStr (''Error: Provide 'TOKEN_ADDRESS TO_ADDRESS AMOUNT'. Example: '' @
                        '''0xSomeToken 0xReceiver 100000'' @ [CHR 0x27])), st)
         else
           let token_addr = parts ! 0; to_addr = parts ! 1; amount_str = parts ! 2
           in case py_int (int_max_str_digits env) amount_str of
                None \<Rightarrow> (Inr (PyStr ''Error: AMOUNT must be an integer.''), st)
              | Some amount_int \<Rightarrow>
                  withdraw_erc20_from_contract env token_addr to_addr amount_int st)"

subsection \<open>The tools of \<^verbatim>\<open>initialize_agent\<close>\<close>

record 'w tool =
  name :: string
  description :: string
  func :: "string \<Rightarrow> 'w action"

text \<open>
  The wallet provider that the closures of the source read from a global variable is the
  argument \<open>env\<close>. The \<^verbatim>\<open>float(amount_str)\<close> of \<^verbatim>\<open>deposit_eth\<close> stands in no \<^verbatim>\<open>try\<close>: its
  exception leaves the tool.
\<close>

definition custom_contract_tools :: "'w env \<Rightarrow> 'w tool list" where
  "custom_contract_tools env = [
     \<lparr>name = ''deposit_eth'',
      description = ''Deposit ETH into the custom smart contract. '' @
                    ''Argument: an ETH float like '0.0001'.'',
      func = (\<lambda>amount_str st.
                case float env amount_str of
                  Inl e \<Rightarrow> (Inl e, st)
                | Inr x \<Rightarrow> deposit_to_contract env x st)\<rparr>,
     \<lparr>name = ''deposit_erc20'',
      description = ''Deposit ERC20 tokens into the custom contract. '' @
                    ''Provide 'TOKEN_ADDRESS AMOUNT' (AMOUNT is an integer).'',
      func = parse_deposit_erc20_args env\<rparr>,
     \<lparr>name = ''increment_counter'',
      description = ''Increment the counter in the custom smart contract (no arguments).'',
      func = (\<lambda>_. increment_counter env)\<rparr>,
     \<lparr>name = ''get_contract_balance'',
      description =
        ''Get the ETH balance (in Wei) of the custom smart contract (no arguments).'',
      func = (\<lambda>_. get_contract_balance env)\<rparr>,
     \<lparr>name = ''get_contract_counter'',
      description =
        ''Get the current counter value of the custom smart contract (no arguments).'',
      func = (\<lambda>_. get_contract_counter env)\<rparr>,
     \<lparr>name = ''get_contract_erc20_balance'',
      description = ''Get the ERC20 token balance of the custom contract. '' @
                    ''Provide a single 'TOKEN_ADDRESS'.'',
      func = parse_erc20_balance_args env\<rparr>,
     \<lparr>name = ''withdraw'',
      description = ''Withdraw native ETH from the custom contract. '' @
                    ''Provide 'TO_ADDRESS AMOUNT_IN_ETH'. Example: '0xReceiver 0.01'' @ [CHR 0x27],
      func = parse_withdraw_args env\<rparr>,
     \<lparr>name = ''withdraw_erc20'',
      description = ''Withdraw ERC20 tokens from the custom contract. '' @
                    ''Provide 'TOKEN_ADDRESS TO_ADDRESS AMOUNT'. Example: '' @
                    '''0xSomeToken 0xReceiver 1000'' @ [CHR 0x27],
      func = parse_withdraw_erc20_args env\<rparr>]"

text \<open>The tool of a name, as the agent runtime picks it from the list.\<close>

definition tool_named :: "'w env \<Rightarrow> string \<Rightarrow> 'w tool option" where
  "tool_named env n = find (\<lambda>t. name t = n) (custom_contract_tools env)"

definition run_tool :: "'w env \<Rightarrow> string \<Rightarrow> string \<Rightarrow> 'w action" where
  "run_tool env n input_str st =
     (case tool_named env n of
        None \<Rightarrow> (Inl (Exc ''KeyError'' n), st)
      | Some t \<Rightarrow> func t input_str st)"

subsection \<open>Collaborators for the examples\<close>

text \<open>
  A world that counts the transactions sent. In \<open>demo_env\<close> every collaborator answers;
  in \<open>failing_env\<close> the provider refuses every transaction and every read.
\<close>

definition demo_float :: "string \<Rightarrow> exc + decimal" where
  "demo_float s =
     (if s = ''0.0001'' then Inr (Finite False 1 (- 4))
      else if s = ''-1'' then Inr (Finite True 10 (- 1))
      else Inl (Exc ''ValueError'' (''could not convert string to float: '' @ s)))"

definition demo_env :: "nat env" where
  "demo_env =
     \<lparr>encode_abi = (\<lambda>address abi function_name args. Inr ''0xd0e30db0''),
      send_transaction = (\<lambda>tx n. (Inr ''0xabc'', Suc n)),
      wait_for_transaction_receipt = (\<lambda>tx_hash n. (Inr (), n)),
      read_contract = (\<lambda>address abi function_name args n. (Inr (PyInt 7), n)),
      float = demo_float,
      int_max_str_digits = 4300\<rparr>"

definition failing_env :: "nat env" where
  "failing_env =
     \<lparr>encode_abi = (\<lambda>address abi function_name args. Inr ''0xd0e30db0''),
      send_transaction = (\<lambda>tx n. (Inl (Exc ''Exception'' ''insufficient funds''), n)),
      wait_for_transaction_receipt = (\<lambda>tx_hash n. (Inr (), n)),
      read_contract =
        (\<lambda>address abi function_name args n. (Inl (Exc ''Exception'' ''execution reverted''), n)),
      float = demo_float,
      int_max_str_digits = 4300\<rparr>"

text \<open>
  In \<open>resolving_env\<close> the encoder looks the function name up in the descriptor it is
  given and raises for a name that is not among its functions.
\<close>

definition resolving_env :: "nat env" where
  "resolving_env =
     demo_env\<lparr>encode_abi :=
       (\<lambda>address abi function_name args.
          if function_name \<in> set (function_names abi) then Inr ''0xd0e30db0''
          else Inl (Exc ''ABIFunctionNotFound'' ''function not found in the ABI''))\<rparr>"

definition st0 :: "nat state" where
  "st0 = \<lparr>calls = [], chain = 0\<rparr>"

subsection \<open>The tool catalogue as the specification tabulates it\<close>

text \<open>
  The table of the specification gives each tool a grammar and an underlying function.
  The arity of a tool is the number of tokens of its grammar; the descriptions of the tools
  in the source ask for the same numbers.
\<close>

definition arity :: "string \<Rightarrow> nat" where
  "arity n =
     (if n = ''deposit_eth'' then 1
      else if n = ''deposit_erc20'' then 2
      else if n = ''increment_counter'' then 0
      else if n = ''get_contract_balance'' then 0
      else if n = ''get_contract_counter'' then 0
      else if n = ''get_contract_erc20_balance'' then 1
      else if n = ''withdraw'' then 2
      else if n = ''withdraw_erc20'' then 3
      else 0)"

definition underlying_function :: "string \<Rightarrow> string" where
  "underlying_function n =
     (if n = ''deposit_eth'' then ''deposit''
      else if n = ''deposit_erc20'' then ''depositERC20''
      else if n = ''increment_counter'' then ''incrementCounter''
      else if n = ''get_contract_balance'' then ''getBalance''
      else if n = ''get_contract_counter'' then ''getCounter''
      else if n = ''get_contract_erc20_balance'' then ''getERC20Balance''
      else if n = ''withdraw'' then ''withdraw''
      else if n = ''withdraw_erc20'' then ''withdrawERC20''
      else [])"


text \<open>The contract functions that a list of calls names, in the order of the calls.\<close>

fun call_names :: "call \<Rightarrow> string list" where
  "call_names (Encode_abi function_name args) = [function_name]"
| "call_names (Read_contract address function_name args) = [function_name]"
| "call_names (Send_transaction tx) = []"
| "call_names (Wait_for_transaction_receipt tx_hash) = []"

definition functions_called :: "call list \<Rightarrow> string list" where
  "functions_called cs = concat (map call_names cs)"

section \<open>Properties\<close>

subsection \<open>Stripping and splitting\<close>

lemma strip_Nil_iff: "strip s = [] \<longleftrightarrow> (\<forall>c\<in>set s. isspace c)"
proof (cases "dropWhile isspace s")
  case Nil
  then have "strip s = []" by (simp only: strip_def rev.simps dropWhile.simps)
  moreover have "\<forall>c\<in>set s. isspace c" using Nil by (simp add: dropWhile_eq_Nil_conv)
  ultimately show ?thesis by simp
next
  case (Cons c cs)
  have c: "\<not> isspace c" using Cons hd_dropWhile[of isspace s] by fastforce
  have "c \<in> set s" using Cons set_dropWhileD[of c isspace s] by simp
  with c have r: "\<not> (\<forall>c\<in>set s. isspace c)" by blast
  have "c \<in> set (rev (c # cs))" by simp
  with c have "dropWhile isspace (rev (c # cs)) \<noteq> []"
    by (metis dropWhile_eq_Nil_conv)
  then have "strip s \<noteq> []" by (simp add: strip_def Cons)
  with r show ?thesis by simp
qed
lemma strip_decomp:
  "\<exists>l r. s = l @ strip s @ r \<and> (\<forall>c\<in>set l. isspace c) \<and> (\<forall>c\<in>set r. isspace c)"
proof -
  define d where "d = dropWhile isspace s"
  define r where "r = rev (takeWhile isspace (rev d))"
  have "rev (takeWhile isspace (rev d) @ dropWhile isspace (rev d)) = d"
    by (simp only: takeWhile_dropWhile_id rev_rev_ident)
  then have "rev (dropWhile isspace (rev d)) @ rev (takeWhile isspace (rev d)) = d"
    by (simp only: rev_append)
  then have d: "d = strip s @ r" unfolding strip_def d_def r_def by (rule sym)
  have "s = takeWhile isspace s @ d" unfolding d_def by (simp only: takeWhile_dropWhile_id)
  with d have "s = takeWhile isspace s @ strip s @ r" by simp
  moreover have "\<forall>c\<in>set (takeWhile isspace s). isspace c" by (auto dest: set_takeWhileD)
  moreover have "\<forall>c\<in>set r. isspace c" by (auto simp: r_def dest: set_takeWhileD)
  ultimately show ?thesis by blast
qed
lemma strip_ends:
  assumes "strip s \<noteq> []"
  shows "\<not> isspace (hd (strip s)) \<and> \<not> isspace (last (strip s))"
proof -
  define d where "d = dropWhile isspace s"
  define b where "b = dropWhile isspace (rev d)"
  have s: "strip s = rev b" by (simp add: strip_def d_def b_def)
  with assms have b: "b \<noteq> []" by simp
  have d: "d \<noteq> []" using b by (auto simp: b_def)
  have "\<not> isspace (hd b)" using b hd_dropWhile[of isspace "rev d"] by (simp add: b_def)
  then have l: "\<not> isspace (last (strip s))" using b by (simp add: s last_rev)
  have "rev d = takeWhile isspace (rev d) @ b" by (simp add: b_def)
  then have "last (rev d) = last b" using b by (metis last_appendR)
  then have "hd d = last b" using d by (simp add: last_rev)
  moreover have "\<not> isspace (hd d)" using d hd_dropWhile[of isspace s] by (simp add: d_def)
  ultimately have "\<not> isspace (hd (strip s))" using b by (simp add: s hd_rev)
  with l show ?thesis by simp
qed
lemma str_split_Nil: "dropWhile isspace s = [] \<Longrightarrow> str_split s = []"
  by (subst str_split.simps) (simp only: list.case)

lemma str_split_Cons:
  "dropWhile isspace s = c # cs \<Longrightarrow>
   str_split s =
     takeWhile (\<lambda>x. \<not> isspace x) (c # cs) # str_split (dropWhile (\<lambda>x. \<not> isspace x) (c # cs))"
  by (subst str_split.simps) (simp only: list.case)

lemma str_split_tokens:
  "t \<in> set (str_split s) \<Longrightarrow> t \<noteq> [] \<and> (\<forall>c\<in>set t. \<not> isspace c)"
proof (induction s rule: str_split.induct)
  case (1 s)
  show ?case
  proof (cases "dropWhile isspace s")
    case Nil
    with "1.prems" show ?thesis by (simp only: str_split_Nil[OF Nil] list.set empty_iff)
  next
    case (Cons c cs)
    have c: "\<not> isspace c" using Cons hd_dropWhile[of isspace s] by fastforce
    from "1.prems"
    have "t = takeWhile (\<lambda>x. \<not> isspace x) (c # cs) \<or>
          t \<in> set (str_split (dropWhile (\<lambda>x. \<not> isspace x) (c # cs)))"
      by (simp only: str_split_Cons[OF Cons] list.set insert_iff)
    then show ?thesis
    proof
      assume t: "t = takeWhile (\<lambda>x. \<not> isspace x) (c # cs)"
      then have "t \<noteq> []" using c by simp
      moreover have "\<forall>x\<in>set t. \<not> isspace x" unfolding t by (auto dest: set_takeWhileD)
      ultimately show ?thesis by simp
    next
      assume "t \<in> set (str_split (dropWhile (\<lambda>x. \<not> isspace x) (c # cs)))"
      then show ?thesis by (rule "1.IH"[OF Cons])
    qed
  qed
qed

subsection \<open>The calls of the two helper methods\<close>

lemma read_contract_function_eq:
  "read_contract_function env function_name args st =
     (case read_contract env SMART_CONTRACT_ADDRESS SMART_CONTRACT_ABI function_name
             (default_args args) (chain st) of
        (result, c1) \<Rightarrow>
          ((case result of
              Inl e \<Rightarrow> Inr (PyStr (''Error reading from contract: '' @ str_exc e))
            | Inr v \<Rightarrow> Inr v),
           \<lparr>calls = calls st @
              [Read_contract SMART_CONTRACT_ADDRESS function_name (default_args args)],
            chain = c1\<rparr>))"
  by (simp add: read_contract_function_def read_try_def Let_def split: prod.splits sum.splits)

lemma read_contract_function_calls:
  "calls (snd (read_contract_function env function_name args st)) =
     calls st @
       [Read_contract SMART_CONTRACT_ADDRESS function_name (default_args args)]"
  by (simp add: read_contract_function_eq split: prod.splits)

subsection \<open>The token address of \<^verbatim>\<open>get_contract_erc20_balance\<close>\<close>

text \<open>
  C10. An input that is empty or all white space gets the text
  \<^verbatim>\<open>Error: Provide a valid token address.\<close> and the state is untouched, so no read call is
  made. Any other input is the stripped text between two runs of white space, the
  stripped text begins and ends with a character that is no white space, and it is what
  \<^verbatim>\<open>read_contract\<close> is called with as the token address.
\<close>

theorem erc20_balance_token_address:
  "((\<forall>c\<in>set input_str. isspace c) \<longrightarrow>
      parse_erc20_balance_args env input_str st =
        (Inr (PyStr ''Error: Provide a valid token address.''), st)) \<and>
   ((\<exists>c\<in>set input_str. \<not> isspace c) \<longrightarrow>
      (\<exists>l r. input_str = l @ strip input_str @ r \<and>
             (\<forall>c\<in>set l. isspace c) \<and> (\<forall>c\<in>set r. isspace c)) \<and>
      strip input_str \<noteq> [] \<and>
      \<not> isspace (hd (strip input_str)) \<and> \<not> isspace (last (strip input_str)) \<and>
      parse_erc20_balance_args env input_str st =
        get_contract_erc20_balance env (strip input_str) st \<and>
      calls (snd (parse_erc20_balance_args env input_str st)) =
        calls st @
          [Read_contract SMART_CONTRACT_ADDRESS ''getERC20Balance''
             [PyStr (strip input_str)]])"
proof (intro conjI impI)
  assume "\<forall>c\<in>set input_str. isspace c"
  then have "strip input_str = []" by (simp add: strip_Nil_iff)
  then show "parse_erc20_balance_args env input_str st =
      (Inr (PyStr ''Error: Provide a valid token address.''), st)"
    by (simp add: parse_erc20_balance_args_def)
next
  assume "\<exists>c\<in>set input_str. \<not> isspace c"
  then have ne: "strip input_str \<noteq> []" by (simp add: strip_Nil_iff)
  show "\<exists>l r. input_str = l @ strip input_str @ r \<and>
             (\<forall>c\<in>set l. isspace c) \<and> (\<forall>c\<in>set r. isspace c)"
    by (rule strip_decomp)
  show "strip input_str \<noteq> []" by (rule ne)
  show "\<not> isspace (hd (strip input_str))" using strip_ends[OF ne] by simp
  show "\<not> isspace (last (strip input_str))" using strip_ends[OF ne] by simp
  show eq: "parse_erc20_balance_args env input_str st =
      get_contract_erc20_balance env (strip input_str) st"
    using ne by (simp add: parse_erc20_balance_args_def)
  show "calls (snd (parse_erc20_balance_args env input_str st)) =
      calls st @
        [Read_contract SMART_CONTRACT_ADDRESS ''getERC20Balance'' [PyStr (strip input_str)]]"
    by (simp add: eq get_contract_erc20_balance_def read_contract_function_calls default_args_def)
qed

lemma strip_token_example: "strip ''  0xToken '' = ''0xToken''"
  by code_simp

theorem erc20_balance_token_address_witness:
  "parse_erc20_balance_args demo_env [CHR 0x20, CHR 0x09, CHR 0x20] st0 =
     (Inr (PyStr ''Error: Provide a valid token address.''), st0) \<and>
   parse_erc20_balance_args demo_env ''  0xToken '' st0 =
     (Inr (PyInt 7),
      \<lparr>calls = [Read_contract SMART_CONTRACT_ADDRESS ''getERC20Balance'' [PyStr ''0xToken'']],
       chain = 0\<rparr>)"
proof -
  have blank: "\<forall>c\<in>set [CHR 0x20, CHR 0x09, CHR 0x20]. isspace c"
    by (simp add: isspace_def)
  have token: "\<exists>c\<in>set ''  0xToken ''. \<not> isspace c"
    by (simp add: isspace_def)
  have a: "parse_erc20_balance_args demo_env [CHR 0x20, CHR 0x09, CHR 0x20] st0 =
      (Inr (PyStr ''Error: Provide a valid token address.''), st0)"
    using erc20_balance_token_address[of "[CHR 0x20, CHR 0x09, CHR 0x20]" demo_env st0] blank
    by blast
  have "parse_erc20_balance_args demo_env ''  0xToken '' st0 =
      get_contract_erc20_balance demo_env (strip ''  0xToken '') st0"
    using erc20_balance_token_address[of "''  0xToken ''" demo_env st0] token by blast
  then have b: "parse_erc20_balance_args demo_env ''  0xToken '' st0 =
      (Inr (PyInt 7),
       \<lparr>calls = [Read_contract SMART_CONTRACT_ADDRESS ''getERC20Balance'' [PyStr ''0xToken'']],
        chain = 0\<rparr>)"
    by (simp add: strip_token_example get_contract_erc20_balance_def
        read_contract_function_eq default_args_def demo_env_def st0_def)
  from a b show ?thesis by simp
qed

lemma invoke_encode_raises:
  assumes "encode_abi env SMART_CONTRACT_ADDRESS SMART_CONTRACT_ABI function_name
             (default_args args) = Inl e"
  shows "invoke_contract_function env function_name args val st =
     (Inr (PyStr (''Error calling '' @ function_name @ '': '' @ str_exc e)),
      \<lparr>calls = calls st @ [Encode_abi function_name (default_args args)], chain = chain st\<rparr>)"
  using assms by (simp add: invoke_contract_function_def invoke_try_def Let_def)

lemma invoke_request_raises:
  assumes "encode_abi env SMART_CONTRACT_ADDRESS SMART_CONTRACT_ABI function_name
             (default_args args) = Inr data"
    and "tx_request data val = Inl e"
  shows "invoke_contract_function env function_name args val st =
     (Inr (PyStr (''Error calling '' @ function_name @ '': '' @ str_exc e)),
      \<lparr>calls = calls st @ [Encode_abi function_name (default_args args)], chain = chain st\<rparr>)"
  using assms by (simp add: invoke_contract_function_def invoke_try_def Let_def)

lemma invoke_send_raises:
  assumes "encode_abi env SMART_CONTRACT_ADDRESS SMART_CONTRACT_ABI function_name
             (default_args args) = Inr data"
    and "tx_request data val = Inr tx"
    and "send_transaction env tx (chain st) = (Inl e, c2)"
  shows "invoke_contract_function env function_name args val st =
     (Inr (PyStr (''Error calling '' @ function_name @ '': '' @ str_exc e)),
      \<lparr>calls = calls st @ [Encode_abi function_name (default_args args), Send_transaction tx],
       chain = c2\<rparr>)"
  using assms by (simp add: invoke_contract_function_def invoke_try_def Let_def)

lemma invoke_wait_raises:
  assumes "encode_abi env SMART_CONTRACT_ADDRESS SMART_CONTRACT_ABI function_name
             (default_args args) = Inr data"
    and "tx_request data val = Inr tx"
    and "send_transaction env tx (chain st) = (Inr tx_hash, c2)"
    and "wait_for_transaction_receipt env tx_hash c2 = (Inl e, c3)"
  shows "invoke_contract_function env function_name args val st =
     (Inr (PyStr (''Error calling '' @ function_name @ '': '' @ str_exc e)),
      \<lparr>calls = calls st @ [Encode_abi function_name (default_args args), Send_transaction tx,
                           Wait_for_transaction_receipt tx_hash],
       chain = c3\<rparr>)"
  using assms by (simp add: invoke_contract_function_def invoke_try_def Let_def)

lemma invoke_succeeds:
  assumes "encode_abi env SMART_CONTRACT_ADDRESS SMART_CONTRACT_ABI function_name
             (default_args args) = Inr data"
    and "tx_request data val = Inr tx"
    and "send_transaction env tx (chain st) = (Inr tx_hash, c2)"
    and "wait_for_transaction_receipt env tx_hash c2 = (Inr u, c3)"
  shows "invoke_contract_function env function_name args val st =
     (Inr (PyStr (''Successfully called '' @ function_name @ ''. Transaction hash: '' @ tx_hash)),
      \<lparr>calls = calls st @ [Encode_abi function_name (default_args args), Send_transaction tx,
                           Wait_for_transaction_receipt tx_hash],
       chain = c3\<rparr>)"
  using assms by (simp add: invoke_contract_function_def invoke_try_def Let_def)

text \<open>Whatever the collaborators do, the helper returns a text.\<close>

lemma invoke_returns_text:
  "\<exists>text st1. invoke_contract_function env function_name args val st = (Inr (PyStr text), st1)"
proof (cases "encode_abi env SMART_CONTRACT_ADDRESS SMART_CONTRACT_ABI function_name
                (default_args args)")
  case (Inl e)
  from invoke_encode_raises[OF Inl] show ?thesis by blast
next
  case enc: (Inr data)
  show ?thesis
  proof (cases "tx_request data val")
    case (Inl e)
    from invoke_request_raises[OF enc Inl] show ?thesis by blast
  next
    case req: (Inr tx)
    obtain sent c2 where s: "send_transaction env tx (chain st) = (sent, c2)"
      by (cases "send_transaction env tx (chain st)")
    show ?thesis
    proof (cases sent)
      case (Inl e)
      with s have "send_transaction env tx (chain st) = (Inl e, c2)" by simp
      from invoke_send_raises[OF enc req this] show ?thesis by blast
    next
      case (Inr tx_hash)
      with s have h: "send_transaction env tx (chain st) = (Inr tx_hash, c2)" by simp
      obtain receipt c3 where w: "wait_for_transaction_receipt env tx_hash c2 = (receipt, c3)"
        by (cases "wait_for_transaction_receipt env tx_hash c2")
      show ?thesis
      proof (cases receipt)
        case (Inl e)
        with w have "wait_for_transaction_receipt env tx_hash c2 = (Inl e, c3)" by simp
        from invoke_wait_raises[OF enc req h this] show ?thesis by blast
      next
        case (Inr u)
        with w have "wait_for_transaction_receipt env tx_hash c2 = (Inr u, c3)" by simp
        from invoke_succeeds[OF enc req h this] show ?thesis by blast
      qed
    qed
  qed
qed

subsection \<open>The tools by name\<close>

lemma run_tool_deposit_eth:
  "run_tool env ''deposit_eth'' s st =
     (case float env s of Inl e \<Rightarrow> (Inl e, st) | Inr x \<Rightarrow> deposit_to_contract env x st)"
  by (simp add: run_tool_def tool_named_def custom_contract_tools_def)

lemma run_tool_deposit_erc20:
  "run_tool env ''deposit_erc20'' s st = parse_deposit_erc20_args env s st"
  by (simp add: run_tool_def tool_named_def custom_contract_tools_def)

lemma run_tool_increment_counter:
  "run_tool env ''increment_counter'' s st = increment_counter env st"
  by (simp add: run_tool_def tool_named_def custom_contract_tools_def)

lemma run_tool_get_contract_balance:
  "run_tool env ''get_contract_balance'' s st = get_contract_balance env st"
  by (simp add: run_tool_def tool_named_def custom_contract_tools_def)

lemma run_tool_get_contract_counter:
  "run_tool env ''get_contract_counter'' s st = get_contract_counter env st"
  by (simp add: run_tool_def tool_named_def custom_contract_tools_def)

lemma run_tool_get_contract_erc20_balance:
  "run_tool env ''get_contract_erc20_balance'' s st = parse_erc20_balance_args env s st"
  by (simp add: run_tool_def tool_named_def custom_contract_tools_def)

lemma run_tool_withdraw:
  "run_tool env ''withdraw'' s st = parse_withdraw_args env s st"
  by (simp add: run_tool_def tool_named_def custom_contract_tools_def)

lemma run_tool_withdraw_erc20:
  "run_tool env ''withdraw_erc20'' s st = parse_withdraw_erc20_args env s st"
  by (simp add: run_tool_def tool_named_def custom_contract_tools_def)

subsection \<open>Exceptions of the mutating path\<close>

text \<open>
  C2. \<^verbatim>\<open>invoke_contract_function\<close>, for every function name, argument list and value,
  returns a text and raises nothing. When \<^verbatim>\<open>encode_abi\<close>, \<^verbatim>\<open>send_transaction\<close> or
  \<^verbatim>\<open>wait_for_transaction_receipt\<close> raises an exception \<open>e\<close>, the text is
  \<^verbatim>\<open>Error calling {function_name}: {str(e)}\<close>; when all three return, the text is
  \<^verbatim>\<open>Successfully called {function_name}. Transaction hash: {tx_hash}\<close>, which contains the
  hash that \<^verbatim>\<open>send_transaction\<close> returned.
\<close>

theorem invoke_contract_function_catches:
  "(\<exists>text st1.
      invoke_contract_function env function_name args val st = (Inr (PyStr text), st1)) \<and>
   (\<forall>e. encode_abi env SMART_CONTRACT_ADDRESS SMART_CONTRACT_ABI function_name
          (default_args args) = Inl e \<longrightarrow>
        fst (invoke_contract_function env function_name args val st) =
          Inr (PyStr (''Error calling '' @ function_name @ '': '' @ str_exc e))) \<and>
   (\<forall>data tx.
      encode_abi env SMART_CONTRACT_ADDRESS SMART_CONTRACT_ABI function_name
        (default_args args) = Inr data \<and>
      tx_request data val = Inr tx \<longrightarrow>
        (\<forall>e c2. send_transaction env tx (chain st) = (Inl e, c2) \<longrightarrow>
           fst (invoke_contract_function env function_name args val st) =
             Inr (PyStr (''Error calling '' @ function_name @ '': '' @ str_exc e))) \<and>
        (\<forall>tx_hash c2. send_transaction env tx (chain st) = (Inr tx_hash, c2) \<longrightarrow>
           (\<forall>e c3. wait_for_transaction_receipt env tx_hash c2 = (Inl e, c3) \<longrightarrow>
              fst (invoke_contract_function env function_name args val st) =
                Inr (PyStr (''Error calling '' @ function_name @ '': '' @ str_exc e))) \<and>
           (\<forall>u c3. wait_for_transaction_receipt env tx_hash c2 = (Inr u, c3) \<longrightarrow>
              fst (invoke_contract_function env function_name args val st) =
                Inr (PyStr (''Successfully called '' @ function_name @
                            ''. Transaction hash: '' @ tx_hash)) \<and>
              sublist tx_hash (''Successfully called '' @ function_name @
                               ''. Transaction hash: '' @ tx_hash))))"
proof (intro conjI allI impI, goal_cases)
  case 1
  show ?case by (rule invoke_returns_text)
next
  case (2 e)
  then show ?case by (simp add: invoke_encode_raises)
next
  case (3 data tx e c2)
  then show ?case by (simp add: invoke_send_raises)
next
  case (4 data tx tx_hash c2 e c3)
  then show ?case by (simp add: invoke_wait_raises)
next
  case (5 data tx tx_hash c2 u c3)
  then show ?case by (simp add: invoke_succeeds)
next
  case (6 data tx tx_hash c2 u c3)
  have "sublist tx_hash ((''Successfully called '' @ function_name @
          ''. Transaction hash: '') @ tx_hash @ [])"
    by (rule sublist_appendI)
  then show ?case by simp
qed

lemma tx_request_zero:
  "tx_request data (Decimal_nat 0) =
     Inr (PyDict [(''to'', PyStr SMART_CONTRACT_ADDRESS), (''data'', PyStr data)])"
  by (simp add: tx_request_def Decimal_nat_def)

theorem invoke_contract_function_catches_witness:
  "fst (invoke_contract_function
          (demo_env\<lparr>encode_abi :=
             (\<lambda>address abi function_name args. Inl (Exc ''Exception'' ''no such function''))\<rparr>)
          ''incrementCounter'' None (Decimal_nat 0) st0) =
     Inr (PyStr ''Error calling incrementCounter: no such function'') \<and>
   fst (invoke_contract_function failing_env ''incrementCounter'' None (Decimal_nat 0) st0) =
     Inr (PyStr ''Error calling incrementCounter: insufficient funds'') \<and>
   fst (invoke_contract_function
          (demo_env\<lparr>wait_for_transaction_receipt :=
             (\<lambda>tx_hash n. (Inl (Exc ''Exception'' ''timed out''), n))\<rparr>)
          ''incrementCounter'' None (Decimal_nat 0) st0) =
     Inr (PyStr ''Error calling incrementCounter: timed out'') \<and>
   fst (invoke_contract_function demo_env ''incrementCounter'' None (Decimal_nat 0) st0) =
     Inr (PyStr ''Successfully called incrementCounter. Transaction hash: 0xabc'')"
proof -
  let ?tx = "PyDict [(''to'', PyStr SMART_CONTRACT_ADDRESS), (''data'', PyStr ''0xd0e30db0'')]"
  let ?e1 = "demo_env\<lparr>encode_abi :=
      (\<lambda>address abi function_name args. Inl (Exc ''Exception'' ''no such function''))\<rparr>"
  let ?e3 = "demo_env\<lparr>wait_for_transaction_receipt :=
      (\<lambda>tx_hash n. (Inl (Exc ''Exception'' ''timed out''), n))\<rparr>"
  have a: "fst (invoke_contract_function ?e1 ''incrementCounter'' None (Decimal_nat 0) st0) =
      Inr (PyStr ''Error calling incrementCounter: no such function'')"
    using invoke_contract_function_catches
      [of ?e1 "''incrementCounter''" None "Decimal_nat 0" st0]
    by (simp add: demo_env_def)
  have b: "fst (invoke_contract_function failing_env ''incrementCounter'' None
                  (Decimal_nat 0) st0) =
      Inr (PyStr ''Error calling incrementCounter: insufficient funds'')"
    using invoke_contract_function_catches
      [of failing_env "''incrementCounter''" None "Decimal_nat 0" st0]
    by (simp add: failing_env_def tx_request_zero)
  have c: "fst (invoke_contract_function ?e3 ''incrementCounter'' None (Decimal_nat 0) st0) =
      Inr (PyStr ''Error calling incrementCounter: timed out'')"
    using invoke_contract_function_catches
      [of ?e3 "''incrementCounter''" None "Decimal_nat 0" st0]
    by (simp add: demo_env_def tx_request_zero)
  have d: "fst (invoke_contract_function demo_env ''incrementCounter'' None
                  (Decimal_nat 0) st0) =
      Inr (PyStr ''Successfully called incrementCounter. Transaction hash: 0xabc'')"
    using invoke_contract_function_catches
      [of demo_env "''incrementCounter''" None "Decimal_nat 0" st0]
    by (simp add: demo_env_def tx_request_zero)
  from a b c d show ?thesis by simp
qed

subsection \<open>Exceptions of the read path\<close>

text \<open>
  C9. \<^verbatim>\<open>read_contract_function\<close>, which \<^verbatim>\<open>get_contract_balance\<close>,
  \<^verbatim>\<open>get_contract_counter\<close> and \<^verbatim>\<open>get_contract_erc20_balance\<close> call for \<^verbatim>\<open>getBalance\<close>,
  \<^verbatim>\<open>getCounter\<close> and \<^verbatim>\<open>getERC20Balance\<close>: when \<^verbatim>\<open>read_contract\<close> raises \<open>e\<close> the result
  is the text \<^verbatim>\<open>Error reading from contract: {str(e)}\<close>, in which the function name does
  not occur; when it returns a value, that value is the result as it is.
\<close>

theorem read_contract_function_outcome:
  "(\<forall>e c1. read_contract env SMART_CONTRACT_ADDRESS SMART_CONTRACT_ABI function_name
             (default_args args) (chain st) = (Inl e, c1) \<longrightarrow>
      read_contract_function env function_name args st =
        (Inr (PyStr (''Error reading from contract: '' @ str_exc e)),
         \<lparr>calls = calls st @
            [Read_contract SMART_CONTRACT_ADDRESS function_name (default_args args)],
          chain = c1\<rparr>)) \<and>
   (\<forall>v c1. read_contract env SMART_CONTRACT_ADDRESS SMART_CONTRACT_ABI function_name
             (default_args args) (chain st) = (Inr v, c1) \<longrightarrow>
      read_contract_function env function_name args st =
        (Inr v,
         \<lparr>calls = calls st @
            [Read_contract SMART_CONTRACT_ADDRESS function_name (default_args args)],
          chain = c1\<rparr>)) \<and>
   get_contract_balance env st = read_contract_function env ''getBalance'' None st \<and>
   get_contract_counter env st = read_contract_function env ''getCounter'' None st \<and>
   get_contract_erc20_balance env token_address st =
     read_contract_function env ''getERC20Balance'' (Some [PyStr token_address]) st"
  by (simp add: read_contract_function_eq get_contract_balance_def get_contract_counter_def
      get_contract_erc20_balance_def)

theorem read_contract_function_outcome_witness:
  "read_contract_function failing_env ''getCounter'' None st0 =
     (Inr (PyStr ''Error reading from contract: execution reverted''),
      \<lparr>calls = [Read_contract SMART_CONTRACT_ADDRESS ''getCounter'' []], chain = 0\<rparr>) \<and>
   read_contract_function demo_env ''getCounter'' None st0 =
     (Inr (PyInt 7),
      \<lparr>calls = [Read_contract SMART_CONTRACT_ADDRESS ''getCounter'' []], chain = 0\<rparr>)"
proof -
  have a: "read_contract_function failing_env ''getCounter'' None st0 =
      (Inr (PyStr ''Error reading from contract: execution reverted''),
       \<lparr>calls = [Read_contract SMART_CONTRACT_ADDRESS ''getCounter'' []], chain = 0\<rparr>)"
    using read_contract_function_outcome[of failing_env "''getCounter''" None st0]
    by (simp add: failing_env_def st0_def default_args_def)
  have b: "read_contract_function demo_env ''getCounter'' None st0 =
      (Inr (PyInt 7),
       \<lparr>calls = [Read_contract SMART_CONTRACT_ADDRESS ''getCounter'' []], chain = 0\<rparr>)"
    using read_contract_function_outcome[of demo_env "''getCounter''" None st0]
    by (simp add: demo_env_def st0_def default_args_def)
  from a b show ?thesis by simp
qed

subsection \<open>A missing token of \<^verbatim>\<open>withdraw_erc20\<close>\<close>

text \<open>
  C7. An input of the tool \<^verbatim>\<open>withdraw_erc20\<close> with fewer than three tokens gets the usage
  text at once: the state is the one before, so nothing was encoded and no transaction
  was sent.
\<close>

theorem withdraw_erc20_too_few_tokens:
  "length (str_split (strip input_str)) < 3 \<Longrightarrow>
   run_tool env ''withdraw_erc20'' input_str st =
     (Inr (PyStr (''Error: Provide 'TOKEN_ADDRESS TO_ADDRESS AMOUNT'. Example: '' @
                  '''0xSomeToken 0xReceiver 100000'' @ [CHR 0x27])), st)"
  by (simp add: run_tool_withdraw_erc20 parse_withdraw_erc20_args_def)

lemma split_two_addresses:
  "str_split (strip ''0xToken 0xReceiver'') = [''0xToken'', ''0xReceiver'']"
  by code_simp

theorem withdraw_erc20_too_few_tokens_witness:
  "length (str_split (strip ''0xToken 0xReceiver'')) < 3 \<and>
   run_tool demo_env ''withdraw_erc20'' ''0xToken 0xReceiver'' st0 =
     (Inr (PyStr (''Error: Provide 'TOKEN_ADDRESS TO_ADDRESS AMOUNT'. Example: '' @
                  '''0xSomeToken 0xReceiver 100000'' @ [CHR 0x27])), st0)"
proof -
  have l: "length (str_split (strip ''0xToken 0xReceiver'')) < 3"
    by (simp add: split_two_addresses)
  from l withdraw_erc20_too_few_tokens[OF l, of demo_env st0] show ?thesis by simp
qed

subsection \<open>The calls of \<^verbatim>\<open>invoke_contract_function\<close>\<close>

lemma invoke_cases [case_names encode request send wait ok]:
  obtains
    (encode) e where
      "encode_abi env SMART_CONTRACT_ADDRESS SMART_CONTRACT_ABI function_name
         (default_args args) = Inl e"
  | (request) data e where
      "encode_abi env SMART_CONTRACT_ADDRESS SMART_CONTRACT_ABI function_name
         (default_args args) = Inr data"
      "tx_request data val = Inl e"
  | (send) data tx e c2 where
      "encode_abi env SMART_CONTRACT_ADDRESS SMART_CONTRACT_ABI function_name
         (default_args args) = Inr data"
      "tx_request data val = Inr tx"
      "send_transaction env tx (chain st) = (Inl e, c2)"
  | (wait) data tx tx_hash c2 e c3 where
      "encode_abi env SMART_CONTRACT_ADDRESS SMART_CONTRACT_ABI function_name
         (default_args args) = Inr data"
      "tx_request data val = Inr tx"
      "send_transaction env tx (chain st) = (Inr tx_hash, c2)"
      "wait_for_transaction_receipt env tx_hash c2 = (Inl e, c3)"
  | (ok) data tx tx_hash c2 u c3 where
      "encode_abi env SMART_CONTRACT_ADDRESS SMART_CONTRACT_ABI function_name
         (default_args args) = Inr data"
      "tx_request data val = Inr tx"
      "send_transaction env tx (chain st) = (Inr tx_hash, c2)"
      "wait_for_transaction_receipt env tx_hash c2 = (Inr u, c3)"
proof (cases "encode_abi env SMART_CONTRACT_ADDRESS SMART_CONTRACT_ABI function_name
                (default_args args)")
  case (Inl e)
  then show ?thesis by (rule encode)
next
  case enc: (Inr data)
  show ?thesis
  proof (cases "tx_request data val")
    case (Inl e)
    with enc show ?thesis by (rule request)
  next
    case req: (Inr tx)
    obtain sent c2 where s: "send_transaction env tx (chain st) = (sent, c2)"
      by (cases "send_transaction env tx (chain st)")
    show ?thesis
    proof (cases sent)
      case (Inl e)
      with s have "send_transaction env tx (chain st) = (Inl e, c2)" by simp
      with enc req show ?thesis by (rule send)
    next
      case (Inr tx_hash)
      with s have h: "send_transaction env tx (chain st) = (Inr tx_hash, c2)" by simp
      obtain receipt c3 where w: "wait_for_transaction_receipt env tx_hash c2 = (receipt, c3)"
        by (cases "wait_for_transaction_receipt env tx_hash c2")
      show ?thesis
      proof (cases receipt)
        case (Inl e)
        with w have "wait_for_transaction_receipt env tx_hash c2 = (Inl e, c3)" by simp
        with enc req h show ?thesis by (rule wait)
      next
        case (Inr u)
        with w have "wait_for_transaction_receipt env tx_hash c2 = (Inr u, c3)" by simp
        with enc req h show ?thesis by (rule ok)
      qed
    qed
  qed
qed

text \<open>
  The calls of one invocation: the encoding first, then at most one transaction, whose
  request is the one \<open>tx_request\<close> builds, then at most the wait for its receipt.
\<close>

lemma invoke_calls:
  "\<exists>rest.
     calls (snd (invoke_contract_function env function_name args val st)) =
       calls st @ Encode_abi function_name (default_args args) # rest \<and>
     (rest = [] \<or>
      (\<exists>data tx.
         encode_abi env SMART_CONTRACT_ADDRESS SMART_CONTRACT_ABI function_name
           (default_args args) = Inr data \<and>
         tx_request data val = Inr tx \<and>
         (rest = [Send_transaction tx] \<or>
          (\<exists>tx_hash. rest = [Send_transaction tx, Wait_for_transaction_receipt tx_hash]))))"
proof (cases rule: invoke_cases[where env = env and function_name = function_name
    and args = args and val = val and st = st])
  case (encode e)
  show ?thesis by (simp add: invoke_encode_raises[OF encode])
next
  case (request data e)
  show ?thesis by (simp add: invoke_request_raises[OF request])
next
  case (send data tx e c2)
  show ?thesis using send(1,2) by (simp add: invoke_send_raises[OF send])
next
  case (wait data tx tx_hash c2 e c3)
  show ?thesis using wait(1,2) by (simp add: invoke_wait_raises[OF wait])
next
  case (ok data tx tx_hash c2 u c3)
  show ?thesis using ok(1,2) by (simp add: invoke_succeeds[OF ok])
qed

lemma invoke_calls_encode_first:
  "\<exists>rest. calls (snd (invoke_contract_function env function_name args val st)) =
     calls st @ Encode_abi function_name (default_args args) # rest"
  using invoke_calls[of env function_name args val st] by blast

lemma str_split_Nil_iff: "str_split s = [] \<longleftrightarrow> (\<forall>c\<in>set s. isspace c)"
proof (cases "dropWhile isspace s")
  case Nil
  then show ?thesis using str_split_Nil[OF Nil] by (simp add: dropWhile_eq_Nil_conv)
next
  case (Cons c cs)
  then have "\<not> (\<forall>c\<in>set s. isspace c)"
    by (metis dropWhile_eq_Nil_conv list.distinct(1))
  then show ?thesis using str_split_Cons[OF Cons] by simp
qed

lemma str_split_strip_Nil_iff: "str_split (strip s) = [] \<longleftrightarrow> strip s = []"
proof
  assume "str_split (strip s) = []"
  then have a: "\<forall>c\<in>set (strip s). isspace c" by (simp add: str_split_Nil_iff)
  show "strip s = []"
  proof (rule ccontr)
    assume ne: "strip s \<noteq> []"
    then have "hd (strip s) \<in> set (strip s)" by simp
    with a strip_ends[OF ne] show False by blast
  qed
next
  assume "strip s = []"
  then show "str_split (strip s) = []" by (simp add: str_split_Nil_iff)
qed

subsection \<open>The token count\<close>

text \<open>
  C1 as the specification states it fails: \<^verbatim>\<open>increment_counter\<close> takes no argument, and
  given the two tokens \<^verbatim>\<open>foo bar\<close> it encodes the call, sends the transaction and waits for
  the receipt, since its lambda drops the argument.
\<close>

theorem token_count_unchecked_counterexample:
  "length (str_split (strip ''foo bar'')) \<noteq> arity ''increment_counter'' \<and>
   run_tool demo_env ''increment_counter'' ''foo bar'' st0 =
     (Inr (PyStr ''Successfully called incrementCounter. Transaction hash: 0xabc''),
      \<lparr>calls =
         [Encode_abi ''incrementCounter'' [],
          Send_transaction
            (PyDict [(''to'', PyStr SMART_CONTRACT_ADDRESS), (''data'', PyStr ''0xd0e30db0'')]),
          Wait_for_transaction_receipt ''0xabc''],
       chain = 1\<rparr>)"
proof -
  have "str_split (strip ''foo bar'') = [''foo'', ''bar'']" by code_simp
  then have a: "length (str_split (strip ''foo bar'')) \<noteq> arity ''increment_counter''"
    by (simp add: arity_def)
  have b: "run_tool demo_env ''increment_counter'' ''foo bar'' st0 =
     (Inr (PyStr ''Successfully called incrementCounter. Transaction hash: 0xabc''),
      \<lparr>calls =
         [Encode_abi ''incrementCounter'' [],
          Send_transaction
            (PyDict [(''to'', PyStr SMART_CONTRACT_ADDRESS), (''data'', PyStr ''0xd0e30db0'')]),
          Wait_for_transaction_receipt ''0xabc''],
       chain = 1\<rparr>)"
    by (simp add: run_tool_increment_counter increment_counter_def invoke_contract_function_def
        invoke_try_def tx_request_zero default_args_def demo_env_def st0_def Let_def)
  from a b show ?thesis by simp
qed

text \<open>
  C1, amended. The three parsers that split their input check the token count:
  \<^verbatim>\<open>deposit_erc20\<close> and \<^verbatim>\<open>withdraw\<close> given a number of tokens other than two, and
  \<^verbatim>\<open>withdraw_erc20\<close> given a number other than three, return their usage text, raise
  nothing and leave the state as it was, so nothing is encoded and no call is made.
  \<^verbatim>\<open>get_contract_erc20_balance\<close> returns its error text for no token at all and forwards
  every other input, stripped, whatever its token count. \<^verbatim>\<open>increment_counter\<close>,
  \<^verbatim>\<open>get_contract_balance\<close> and \<^verbatim>\<open>get_contract_counter\<close> do not read their input.
\<close>

theorem token_count_checked_by_the_splitting_parsers:
  "(length (str_split (strip s)) \<noteq> arity ''deposit_erc20'' \<longrightarrow>
      run_tool env ''deposit_erc20'' s st =
        (Inr (PyStr ''Error: Provide 'TOKEN_ADDRESS AMOUNT' separated by a space.''), st)) \<and>
   (length (str_split (strip s)) \<noteq> arity ''withdraw'' \<longrightarrow>
      run_tool env ''withdraw'' s st =
        (Inr (PyStr (''Error: Provide 'TO_ADDRESS AMOUNT_IN_ETH'. Example: '' @
                     '''0xReceiver 0.01'' @ [CHR 0x27])), st)) \<and>
   (length (str_split (strip s)) \<noteq> arity ''withdraw_erc20'' \<longrightarrow>
      run_tool env ''withdraw_erc20'' s st =
        (Inr (PyStr (''Error: Provide 'TOKEN_ADDRESS TO_ADDRESS AMOUNT'. Example: '' @
                     '''0xSomeToken 0xReceiver 100000'' @ [CHR 0x27])), st)) \<and>
   (length (str_split (strip s)) = 0 \<longrightarrow>
      run_tool env ''get_contract_erc20_balance'' s st =
        (Inr (PyStr ''Error: Provide a valid token address.''), st)) \<and>
   (0 < length (str_split (strip s)) \<longrightarrow>
      run_tool env ''get_contract_erc20_balance'' s st =
        get_contract_erc20_balance env (strip s) st) \<and>
   run_tool env ''increment_counter'' s st = increment_counter env st \<and>
   run_tool env ''get_contract_balance'' s st = get_contract_balance env st \<and>
   run_tool env ''get_contract_counter'' s st = get_contract_counter env st"
proof (intro conjI impI)
  assume "length (str_split (strip s)) \<noteq> arity ''deposit_erc20''"
  then show "run_tool env ''deposit_erc20'' s st =
      (Inr (PyStr ''Error: Provide 'TOKEN_ADDRESS AMOUNT' separated by a space.''), st)"
    by (simp add: arity_def run_tool_deposit_erc20 parse_deposit_erc20_args_def)
next
  assume "length (str_split (strip s)) \<noteq> arity ''withdraw''"
  then show "run_tool env ''withdraw'' s st =
      (Inr (PyStr (''Error: Provide 'TO_ADDRESS AMOUNT_IN_ETH'. Example: '' @
                   '''0xReceiver 0.01'' @ [CHR 0x27])), st)"
    by (simp add: arity_def run_tool_withdraw parse_withdraw_args_def)
next
  assume "length (str_split (strip s)) \<noteq> arity ''withdraw_erc20''"
  then show "run_tool env ''withdraw_erc20'' s st =
      (Inr (PyStr (''Error: Provide 'TOKEN_ADDRESS TO_ADDRESS AMOUNT'. Example: '' @
                   '''0xSomeToken 0xReceiver 100000'' @ [CHR 0x27])), st)"
    by (simp add: arity_def run_tool_withdraw_erc20 parse_withdraw_erc20_args_def)
next
  assume "length (str_split (strip s)) = 0"
  then have "strip s = []" by (simp add: str_split_strip_Nil_iff)
  then show "run_tool env ''get_contract_erc20_balance'' s st =
      (Inr (PyStr ''Error: Provide a valid token address.''), st)"
    by (simp add: run_tool_get_contract_erc20_balance parse_erc20_balance_args_def)
next
  assume "0 < length (str_split (strip s))"
  then have "strip s \<noteq> []" by (simp add: str_split_strip_Nil_iff)
  then show "run_tool env ''get_contract_erc20_balance'' s st =
      get_contract_erc20_balance env (strip s) st"
    by (simp add: run_tool_get_contract_erc20_balance parse_erc20_balance_args_def)
next
  show "run_tool env ''increment_counter'' s st = increment_counter env st"
    by (rule run_tool_increment_counter)
  show "run_tool env ''get_contract_balance'' s st = get_contract_balance env st"
    by (rule run_tool_get_contract_balance)
  show "run_tool env ''get_contract_counter'' s st = get_contract_counter env st"
    by (rule run_tool_get_contract_counter)
qed

lemma split_three_tokens:
  "str_split (strip ''0xToken 0xReceiver 100'') = [''0xToken'', ''0xReceiver'', ''100'']"
  by code_simp

lemma split_one_token: "str_split (strip ''0xToken'') = [''0xToken'']"
  by code_simp

theorem token_count_checked_by_the_splitting_parsers_witness:
  "run_tool demo_env ''deposit_erc20'' ''0xToken 0xReceiver 100'' st0 =
     (Inr (PyStr ''Error: Provide 'TOKEN_ADDRESS AMOUNT' separated by a space.''), st0) \<and>
   run_tool demo_env ''withdraw'' ''0xToken'' st0 =
     (Inr (PyStr (''Error: Provide 'TO_ADDRESS AMOUNT_IN_ETH'. Example: '' @
                  '''0xReceiver 0.01'' @ [CHR 0x27])), st0) \<and>
   run_tool demo_env ''withdraw_erc20'' ''0xToken 0xReceiver'' st0 =
     (Inr (PyStr (''Error: Provide 'TOKEN_ADDRESS TO_ADDRESS AMOUNT'. Example: '' @
                  '''0xSomeToken 0xReceiver 100000'' @ [CHR 0x27])), st0) \<and>
   run_tool demo_env ''get_contract_erc20_balance'' [] st0 =
     (Inr (PyStr ''Error: Provide a valid token address.''), st0) \<and>
   run_tool demo_env ''get_contract_erc20_balance'' ''0xToken 0xReceiver'' st0 =
     get_contract_erc20_balance demo_env ''0xToken 0xReceiver'' st0"
proof -
  have s0: "str_split (strip []) = []" by code_simp
  have t2: "strip ''0xToken 0xReceiver'' = ''0xToken 0xReceiver''" by code_simp
  have s2: "str_split ''0xToken 0xReceiver'' = [''0xToken'', ''0xReceiver'']" by code_simp
  have a: "run_tool demo_env ''deposit_erc20'' ''0xToken 0xReceiver 100'' st0 =
      (Inr (PyStr ''Error: Provide 'TOKEN_ADDRESS AMOUNT' separated by a space.''), st0)"
    using token_count_checked_by_the_splitting_parsers[of "''0xToken 0xReceiver 100''" demo_env st0]
    by (simp add: split_three_tokens arity_def)
  have b: "run_tool demo_env ''withdraw'' ''0xToken'' st0 =
      (Inr (PyStr (''Error: Provide 'TO_ADDRESS AMOUNT_IN_ETH'. Example: '' @
                   '''0xReceiver 0.01'' @ [CHR 0x27])), st0)"
    using token_count_checked_by_the_splitting_parsers[of "''0xToken''" demo_env st0]
    by (simp add: split_one_token arity_def)
  have c: "run_tool demo_env ''withdraw_erc20'' ''0xToken 0xReceiver'' st0 =
      (Inr (PyStr (''Error: Provide 'TOKEN_ADDRESS TO_ADDRESS AMOUNT'. Example: '' @
                   '''0xSomeToken 0xReceiver 100000'' @ [CHR 0x27])), st0)"
    using token_count_checked_by_the_splitting_parsers[of "''0xToken 0xReceiver''" demo_env st0]
    by (simp add: split_two_addresses arity_def)
  have d: "run_tool demo_env ''get_contract_erc20_balance'' [] st0 =
      (Inr (PyStr ''Error: Provide a valid token address.''), st0)"
    using token_count_checked_by_the_splitting_parsers[of "[]" demo_env st0]
    by (simp add: s0)
  have e: "run_tool demo_env ''get_contract_erc20_balance'' ''0xToken 0xReceiver'' st0 =
      get_contract_erc20_balance demo_env ''0xToken 0xReceiver'' st0"
    using token_count_checked_by_the_splitting_parsers[of "''0xToken 0xReceiver''" demo_env st0]
    by (simp add: t2 s2)
  from a b c d e show ?thesis by simp
qed

subsection \<open>Integer amounts\<close>

lemma is_digit_not_underscore: "is_digit c \<Longrightarrow> c \<noteq> CHR ''_''"
  by (auto simp: is_digit_def)

lemma is_digit_not_sign: "is_digit c \<Longrightarrow> c \<noteq> CHR ''-'' \<and> c \<noteq> CHR ''+''"
  by (auto simp: is_digit_def)

lemma grouped_digits_all_digits:
  "ds \<noteq> [] \<Longrightarrow> list_all is_digit ds \<Longrightarrow> grouped_digits ds"
  by (induction ds rule: grouped_digits.induct) (auto dest: is_digit_not_underscore)

lemma filter_underscore_digits:
  "list_all is_digit ds \<Longrightarrow> filter (\<lambda>c. c \<noteq> CHR ''_'') ds = ds"
  by (induction ds) (auto dest: is_digit_not_underscore)

lemma split_sign_digits:
  "ds \<noteq> [] \<Longrightarrow> list_all is_digit ds \<Longrightarrow> split_sign ds = (False, ds)"
  by (cases ds) (auto simp: split_sign_def dest: is_digit_not_sign)

lemma py_int_digits:
  assumes "ds \<noteq> []" and "list_all is_digit ds" and "lim = 0 \<or> length ds \<le> lim"
  shows "py_int lim ds = Some (int (digits_val ds))"
    and "py_int lim (CHR ''-'' # ds) = Some (- int (digits_val ds))"
proof -
  from assms(3) have l: "\<not> (0 < lim \<and> lim < length ds)" by auto
  show "py_int lim ds = Some (int (digits_val ds))"
    using l by (simp add: py_int_def split_sign_digits[OF assms(1,2)]
        grouped_digits_all_digits[OF assms(1,2)] filter_underscore_digits[OF assms(2)])
  show "py_int lim (CHR ''-'' # ds) = Some (- int (digits_val ds))"
    using l by (simp add: py_int_def split_sign_def
        grouped_digits_all_digits[OF assms(1,2)] filter_underscore_digits[OF assms(2)])
qed

text \<open>
  C4 as the specification states it fails: the amount \<^verbatim>\<open>-5\<close> is an integer for \<^verbatim>\<open>int\<close>,
  so \<^verbatim>\<open>deposit_erc20\<close> returns no error text of its own but goes on to the contract call
  with the negative amount, and \<^verbatim>\<open>encode_abi\<close> is called with it.
\<close>

theorem negative_amount_counterexample:
  "py_int (int_max_str_digits demo_env) ''-5'' = Some (- 5) \<and>
   run_tool demo_env ''deposit_erc20'' ''0xa633656593bB24252A55A468146fe9536eA899cB -5'' st0 =
     deposit_erc20_to_contract demo_env ''0xa633656593bB24252A55A468146fe9536eA899cB'' (- 5) st0 \<and>
   take 1 (calls (snd (run_tool demo_env ''deposit_erc20'' ''0xa633656593bB24252A55A468146fe9536eA899cB -5'' st0))) =
     [Encode_abi ''depositERC20'' [PyStr ''0xa633656593bB24252A55A468146fe9536eA899cB'', PyInt (- 5)]]"
proof -
  have s: "str_split (strip ''0xa633656593bB24252A55A468146fe9536eA899cB -5'') = [''0xa633656593bB24252A55A468146fe9536eA899cB'', ''-5'']"
    by code_simp
  have i: "py_int 4300 ''-5'' = Some (- 5)" by code_simp
  have m: "int_max_str_digits demo_env = 4300" by (simp add: demo_env_def)
  have a: "run_tool demo_env ''deposit_erc20'' ''0xa633656593bB24252A55A468146fe9536eA899cB -5'' st0 =
      deposit_erc20_to_contract demo_env ''0xa633656593bB24252A55A468146fe9536eA899cB'' (- 5) st0"
    by (simp add: run_tool_deposit_erc20 parse_deposit_erc20_args_def s m i)
  have "\<exists>rest. calls (snd (deposit_erc20_to_contract demo_env ''0xa633656593bB24252A55A468146fe9536eA899cB'' (- 5) st0)) =
      calls st0 @ Encode_abi ''depositERC20'' [PyStr ''0xa633656593bB24252A55A468146fe9536eA899cB'', PyInt (- 5)] # rest"
    using invoke_calls_encode_first
      [of demo_env "''depositERC20''" "Some [PyStr ''0xa633656593bB24252A55A468146fe9536eA899cB'', PyInt (- 5)]" "Decimal_nat 0" st0]
    by (simp add: deposit_erc20_to_contract_def default_args_def)
  then have b: "take 1 (calls (snd (deposit_erc20_to_contract demo_env ''0xa633656593bB24252A55A468146fe9536eA899cB'' (- 5) st0))) =
      [Encode_abi ''depositERC20'' [PyStr ''0xa633656593bB24252A55A468146fe9536eA899cB'', PyInt (- 5)]]"
    by (auto simp: st0_def)
  from a b show ?thesis by (simp add: m i)
qed

text \<open>
  C4, amended. The amount token of \<^verbatim>\<open>deposit_erc20\<close> and \<^verbatim>\<open>withdraw_erc20\<close> goes through
  \<^verbatim>\<open>int\<close>. A token that \<^verbatim>\<open>int\<close> refuses gets the text \<^verbatim>\<open>Error: AMOUNT must be an integer.\<close>
  and the state is untouched, so no contract call is attempted. A token that \<^verbatim>\<open>int\<close> takes
  is passed on as that integer, of either sign: a run of digits within the interpreter's
  limit on digits denotes its value, however large, and behind a minus sign the negative
  of it.
\<close>

theorem integer_amount_of_the_erc20_tools:
  "(str_split (strip s) = [token_addr, amount_str] \<longrightarrow>
      (py_int (int_max_str_digits env) amount_str = None \<longrightarrow>
         run_tool env ''deposit_erc20'' s st =
           (Inr (PyStr ''Error: AMOUNT must be an integer.''), st)) \<and>
      (\<forall>n. py_int (int_max_str_digits env) amount_str = Some n \<longrightarrow>
         run_tool env ''deposit_erc20'' s st =
           deposit_erc20_to_contract env token_addr n st)) \<and>
   (str_split (strip s) = [token_addr, to_addr, amount_str] \<longrightarrow>
      (py_int (int_max_str_digits env) amount_str = None \<longrightarrow>
         run_tool env ''withdraw_erc20'' s st =
           (Inr (PyStr ''Error: AMOUNT must be an integer.''), st)) \<and>
      (\<forall>n. py_int (int_max_str_digits env) amount_str = Some n \<longrightarrow>
         run_tool env ''withdraw_erc20'' s st =
           withdraw_erc20_from_contract env token_addr to_addr n st)) \<and>
   (ds \<noteq> [] \<and> list_all is_digit ds \<and> (lim = 0 \<or> length ds \<le> lim) \<longrightarrow>
      py_int lim ds = Some (int (digits_val ds)) \<and>
      py_int lim (CHR ''-'' # ds) = Some (- int (digits_val ds)))"
proof (intro conjI impI allI)
  assume "str_split (strip s) = [token_addr, amount_str]"
    and "py_int (int_max_str_digits env) amount_str = None"
  then show "run_tool env ''deposit_erc20'' s st =
      (Inr (PyStr ''Error: AMOUNT must be an integer.''), st)"
    by (simp add: run_tool_deposit_erc20 parse_deposit_erc20_args_def)
next
  fix n
  assume "str_split (strip s) = [token_addr, amount_str]"
    and "py_int (int_max_str_digits env) amount_str = Some n"
  then show "run_tool env ''deposit_erc20'' s st = deposit_erc20_to_contract env token_addr n st"
    by (simp add: run_tool_deposit_erc20 parse_deposit_erc20_args_def)
next
  assume "str_split (strip s) = [token_addr, to_addr, amount_str]"
    and "py_int (int_max_str_digits env) amount_str = None"
  then show "run_tool env ''withdraw_erc20'' s st =
      (Inr (PyStr ''Error: AMOUNT must be an integer.''), st)"
    by (simp add: run_tool_withdraw_erc20 parse_withdraw_erc20_args_def)
next
  fix n
  assume "str_split (strip s) = [token_addr, to_addr, amount_str]"
    and "py_int (int_max_str_digits env) amount_str = Some n"
  then show "run_tool env ''withdraw_erc20'' s st =
      withdraw_erc20_from_contract env token_addr to_addr n st"
    by (simp add: run_tool_withdraw_erc20 parse_withdraw_erc20_args_def)
next
  assume a: "ds \<noteq> [] \<and> list_all is_digit ds \<and> (lim = 0 \<or> length ds \<le> lim)"
  then show "py_int lim ds = Some (int (digits_val ds))" by (simp add: py_int_digits(1))
  from a show "py_int lim (CHR ''-'' # ds) = Some (- int (digits_val ds))"
    by (simp add: py_int_digits(2))
qed

theorem integer_amount_of_the_erc20_tools_witness:
  "run_tool demo_env ''deposit_erc20'' ''0xToken 12x'' st0 =
     (Inr (PyStr ''Error: AMOUNT must be an integer.''), st0) \<and>
   run_tool demo_env ''deposit_erc20'' ''0xToken -5'' st0 =
     deposit_erc20_to_contract demo_env ''0xToken'' (- 5) st0 \<and>
   run_tool demo_env ''withdraw_erc20'' ''0xToken 0xReceiver 1.5'' st0 =
     (Inr (PyStr ''Error: AMOUNT must be an integer.''), st0) \<and>
   run_tool demo_env ''withdraw_erc20'' ''0xToken 0xReceiver 100'' st0 =
     withdraw_erc20_from_contract demo_env ''0xToken'' ''0xReceiver'' 100 st0 \<and>
   py_int 0 ''123456789012345678901234567890'' = Some 123456789012345678901234567890 \<and>
   py_int 0 ''-123456789012345678901234567890'' = Some (- 123456789012345678901234567890)"
proof -
  have m: "int_max_str_digits demo_env = 4300" by (simp add: demo_env_def)
  have s1: "str_split (strip ''0xToken 12x'') = [''0xToken'', ''12x'']" by code_simp
  have i1: "py_int 4300 ''12x'' = None" by code_simp
  have s2: "str_split (strip ''0xToken -5'') = [''0xToken'', ''-5'']" by code_simp
  have i2: "py_int 4300 ''-5'' = Some (- 5)" by code_simp
  have s3: "str_split (strip ''0xToken 0xReceiver 1.5'') = [''0xToken'', ''0xReceiver'', ''1.5'']"
    by code_simp
  have i3: "py_int 4300 ''1.5'' = None" by code_simp
  have i4: "py_int 4300 ''100'' = Some 100" by code_simp
  have d: "list_all is_digit ''123456789012345678901234567890''"
    by (simp add: is_digit_def)
  have v: "digits_val ''123456789012345678901234567890'' = 123456789012345678901234567890"
    by (simp add: digits_val_def digit_val_def)
  have a: "run_tool demo_env ''deposit_erc20'' ''0xToken 12x'' st0 =
      (Inr (PyStr ''Error: AMOUNT must be an integer.''), st0)"
    using integer_amount_of_the_erc20_tools
      [of "''0xToken 12x''" "''0xToken''" "''12x''" demo_env st0]
    by (simp add: s1 m i1)
  have b: "run_tool demo_env ''deposit_erc20'' ''0xToken -5'' st0 =
      deposit_erc20_to_contract demo_env ''0xToken'' (- 5) st0"
    using integer_amount_of_the_erc20_tools
      [of "''0xToken -5''" "''0xToken''" "''-5''" demo_env st0]
    by (simp add: s2 m i2)
  have c: "run_tool demo_env ''withdraw_erc20'' ''0xToken 0xReceiver 1.5'' st0 =
      (Inr (PyStr ''Error: AMOUNT must be an integer.''), st0)"
    using integer_amount_of_the_erc20_tools
      [of "''0xToken 0xReceiver 1.5''" "''0xToken''" "''1.5''" demo_env st0 "''0xReceiver''"]
    by (simp add: s3 m i3)
  have e: "run_tool demo_env ''withdraw_erc20'' ''0xToken 0xReceiver 100'' st0 =
      withdraw_erc20_from_contract demo_env ''0xToken'' ''0xReceiver'' 100 st0"
    using integer_amount_of_the_erc20_tools
      [of "''0xToken 0xReceiver 100''" "''0xToken''" "''100''" demo_env st0 "''0xReceiver''"]
    by (simp add: split_three_tokens m i4)
  have f: "py_int 0 ''123456789012345678901234567890'' = Some 123456789012345678901234567890 \<and>
      py_int 0 ''-123456789012345678901234567890'' = Some (- 123456789012345678901234567890)"
    using integer_amount_of_the_erc20_tools
      [of "[]" "[]" "[]" demo_env st0 "[]" "''123456789012345678901234567890''" 0] d
    by (simp add: v)
  from a b c e f show ?thesis by simp
qed

subsection \<open>Address tokens\<close>

text \<open>
  C8. No parser looks into an address token. Whatever the token is, once the token count
  and the amount are accepted the tool goes on to the contract call, and the first call
  it makes, \<^verbatim>\<open>encode_abi\<close> on the mutating path and \<^verbatim>\<open>read_contract\<close> on the read path, has
  the address token unchanged among its arguments: \<^verbatim>\<open>deposit_erc20\<close> its token address,
  \<^verbatim>\<open>withdraw\<close> its receiver, \<^verbatim>\<open>withdraw_erc20\<close> both, \<^verbatim>\<open>get_contract_erc20_balance\<close> its
  stripped input. So a malformed address can fail in the encoder or on the chain only.
\<close>

theorem address_tokens_passed_verbatim:
  "(str_split (strip s) = [token_addr, amount_str] \<and>
    py_int (int_max_str_digits env) amount_str = Some n \<longrightarrow>
      run_tool env ''deposit_erc20'' s st =
        invoke_contract_function env ''depositERC20''
          (Some [PyStr token_addr, PyInt n]) (Decimal_nat 0) st \<and>
      (\<exists>rest. calls (snd (run_tool env ''deposit_erc20'' s st)) =
         calls st @ Encode_abi ''depositERC20'' [PyStr token_addr, PyInt n] # rest)) \<and>
   (str_split (strip s) = [to_addr, amount_eth_str] \<and>
    Decimal_str amount_eth_str = Inr val \<and> to_wei val = Inr amount_wei \<longrightarrow>
      run_tool env ''withdraw'' s st =
        invoke_contract_function env ''withdraw''
          (Some [PyStr to_addr, PyInt amount_wei]) (Decimal_nat 0) st \<and>
      (\<exists>rest. calls (snd (run_tool env ''withdraw'' s st)) =
         calls st @ Encode_abi ''withdraw'' [PyStr to_addr, PyInt amount_wei] # rest)) \<and>
   (str_split (strip s) = [token_addr, to_addr, amount_str] \<and>
    py_int (int_max_str_digits env) amount_str = Some n \<longrightarrow>
      run_tool env ''withdraw_erc20'' s st =
        invoke_contract_function env ''withdrawERC20''
          (Some [PyStr token_addr, PyStr to_addr, PyInt n]) (Decimal_nat 0) st \<and>
      (\<exists>rest. calls (snd (run_tool env ''withdraw_erc20'' s st)) =
         calls st @
           Encode_abi ''withdrawERC20'' [PyStr token_addr, PyStr to_addr, PyInt n] # rest)) \<and>
   (strip s \<noteq> [] \<longrightarrow>
      run_tool env ''get_contract_erc20_balance'' s st =
        read_contract_function env ''getERC20Balance'' (Some [PyStr (strip s)]) st \<and>
      calls (snd (run_tool env ''get_contract_erc20_balance'' s st)) =
        calls st @ [Read_contract SMART_CONTRACT_ADDRESS ''getERC20Balance'' [PyStr (strip s)]])"
proof (intro conjI impI)
  assume a: "str_split (strip s) = [token_addr, amount_str] \<and>
    py_int (int_max_str_digits env) amount_str = Some n"
  then show eq: "run_tool env ''deposit_erc20'' s st =
      invoke_contract_function env ''depositERC20''
        (Some [PyStr token_addr, PyInt n]) (Decimal_nat 0) st"
    by (simp add: run_tool_deposit_erc20 parse_deposit_erc20_args_def
        deposit_erc20_to_contract_def)
  show "\<exists>rest. calls (snd (run_tool env ''deposit_erc20'' s st)) =
      calls st @ Encode_abi ''depositERC20'' [PyStr token_addr, PyInt n] # rest"
    using invoke_calls_encode_first
      [of env "''depositERC20''" "Some [PyStr token_addr, PyInt n]" "Decimal_nat 0" st]
    by (simp add: eq default_args_def)
next
  assume a: "str_split (strip s) = [to_addr, amount_eth_str] \<and>
    Decimal_str amount_eth_str = Inr val \<and> to_wei val = Inr amount_wei"
  then show eq: "run_tool env ''withdraw'' s st =
      invoke_contract_function env ''withdraw''
        (Some [PyStr to_addr, PyInt amount_wei]) (Decimal_nat 0) st"
    by (simp add: run_tool_withdraw parse_withdraw_args_def withdraw_from_contract_def)
  show "\<exists>rest. calls (snd (run_tool env ''withdraw'' s st)) =
      calls st @ Encode_abi ''withdraw'' [PyStr to_addr, PyInt amount_wei] # rest"
    using invoke_calls_encode_first
      [of env "''withdraw''" "Some [PyStr to_addr, PyInt amount_wei]" "Decimal_nat 0" st]
    by (simp add: eq default_args_def)
next
  assume a: "str_split (strip s) = [token_addr, to_addr, amount_str] \<and>
    py_int (int_max_str_digits env) amount_str = Some n"
  then show eq: "run_tool env ''withdraw_erc20'' s st =
      invoke_contract_function env ''withdrawERC20''
        (Some [PyStr token_addr, PyStr to_addr, PyInt n]) (Decimal_nat 0) st"
    by (simp add: run_tool_withdraw_erc20 parse_withdraw_erc20_args_def
        withdraw_erc20_from_contract_def)
  show "\<exists>rest. calls (snd (run_tool env ''withdraw_erc20'' s st)) =
      calls st @
        Encode_abi ''withdrawERC20'' [PyStr token_addr, PyStr to_addr, PyInt n] # rest"
    using invoke_calls_encode_first
      [of env "''withdrawERC20''" "Some [PyStr token_addr, PyStr to_addr, PyInt n]"
        "Decimal_nat 0" st]
    by (simp add: eq default_args_def)
next
  assume "strip s \<noteq> []"
  then show eq: "run_tool env ''get_contract_erc20_balance'' s st =
      read_contract_function env ''getERC20Balance'' (Some [PyStr (strip s)]) st"
    by (simp add: run_tool_get_contract_erc20_balance parse_erc20_balance_args_def
        get_contract_erc20_balance_def)
  show "calls (snd (run_tool env ''get_contract_erc20_balance'' s st)) =
      calls st @ [Read_contract SMART_CONTRACT_ADDRESS ''getERC20Balance'' [PyStr (strip s)]]"
    by (simp add: eq read_contract_function_calls default_args_def)
qed

lemmas decimal_context = prec_def Emax_def Emin_def Etiny_def Etop_def

lemma to_wei_one_hundredth: "to_wei (Finite False 1 (- 2)) = Inr 10000000000000000"
  by (simp add: to_wei_def Decimal_nat_def dec_fix_def ndigits.simps round_half_even_def
      decimal_context Let_def)

theorem address_tokens_passed_verbatim_witness:
  "(\<exists>rest. calls (snd (run_tool demo_env ''deposit_erc20'' ''not-an-address 5'' st0)) =
      calls st0 @ Encode_abi ''depositERC20'' [PyStr ''not-an-address'', PyInt 5] # rest) \<and>
   (\<exists>rest. calls (snd (run_tool demo_env ''withdraw'' ''0xZZ 0.01'' st0)) =
      calls st0 @ Encode_abi ''withdraw'' [PyStr ''0xZZ'', PyInt 10000000000000000] # rest) \<and>
   (\<exists>rest. calls (snd (run_tool demo_env ''withdraw_erc20'' ''? !! 7'' st0)) =
      calls st0 @ Encode_abi ''withdrawERC20'' [PyStr ''?'', PyStr ''!!'', PyInt 7] # rest) \<and>
   calls (snd (run_tool demo_env ''get_contract_erc20_balance'' '' a b '' st0)) =
     calls st0 @ [Read_contract SMART_CONTRACT_ADDRESS ''getERC20Balance'' [PyStr ''a b'']]"
proof -
  have m: "int_max_str_digits demo_env = 4300" by (simp add: demo_env_def)
  have s1: "str_split (strip ''not-an-address 5'') = [''not-an-address'', ''5'']" by code_simp
  have i1: "py_int 4300 ''5'' = Some 5" by code_simp
  have s2: "str_split (strip ''0xZZ 0.01'') = [''0xZZ'', ''0.01'']" by code_simp
  have d2: "Decimal_str ''0.01'' = Inr (Finite False 1 (- 2))" by code_simp
  have s3: "str_split (strip ''? !! 7'') = [''?'', ''!!'', ''7'']" by code_simp
  have i3: "py_int 4300 ''7'' = Some 7" by code_simp
  have s4: "strip '' a b '' = ''a b''" by code_simp
  have h1: "str_split (strip ''not-an-address 5'') = [''not-an-address'', ''5''] \<and>
      py_int (int_max_str_digits demo_env) ''5'' = Some 5"
    by (simp add: s1 m i1)
  have a: "\<exists>rest. calls (snd (run_tool demo_env ''deposit_erc20'' ''not-an-address 5'' st0)) =
      calls st0 @ Encode_abi ''depositERC20'' [PyStr ''not-an-address'', PyInt 5] # rest"
    using address_tokens_passed_verbatim
      [of "''not-an-address 5''" "''not-an-address''" "''5''" demo_env 5 st0
        "[]" "[]" "NaN False" 0] h1
    by blast
  have h2: "str_split (strip ''0xZZ 0.01'') = [''0xZZ'', ''0.01''] \<and>
      Decimal_str ''0.01'' = Inr (Finite False 1 (- 2)) \<and>
      to_wei (Finite False 1 (- 2)) = Inr 10000000000000000"
    using s2 d2 to_wei_one_hundredth by blast
  have b: "\<exists>rest. calls (snd (run_tool demo_env ''withdraw'' ''0xZZ 0.01'' st0)) =
      calls st0 @ Encode_abi ''withdraw'' [PyStr ''0xZZ'', PyInt 10000000000000000] # rest"
    using address_tokens_passed_verbatim
      [of "''0xZZ 0.01''" "[]" "[]" demo_env 0 st0 "''0xZZ''" "''0.01''"
        "Finite False 1 (- 2)" 10000000000000000] h2
    by blast
  have h3: "str_split (strip ''? !! 7'') = [''?'', ''!!'', ''7''] \<and>
      py_int (int_max_str_digits demo_env) ''7'' = Some 7"
    by (simp add: s3 m i3)
  have c: "\<exists>rest. calls (snd (run_tool demo_env ''withdraw_erc20'' ''? !! 7'' st0)) =
      calls st0 @ Encode_abi ''withdrawERC20'' [PyStr ''?'', PyStr ''!!'', PyInt 7] # rest"
    using address_tokens_passed_verbatim
      [of "''? !! 7''" "''?''" "''7''" demo_env 7 st0 "''!!''" "[]" "NaN False" 0] h3
    by blast
  have h4: "strip '' a b '' \<noteq> []" by (simp add: s4)
  have "calls (snd (run_tool demo_env ''get_contract_erc20_balance'' '' a b '' st0)) =
      calls st0 @
        [Read_contract SMART_CONTRACT_ADDRESS ''getERC20Balance'' [PyStr (strip '' a b '')]]"
    using address_tokens_passed_verbatim
      [of "'' a b ''" "[]" "[]" demo_env 0 st0 "[]" "[]" "NaN False" 0] h4
    by blast
  then have d: "calls (snd (run_tool demo_env ''get_contract_erc20_balance'' '' a b '' st0)) =
      calls st0 @ [Read_contract SMART_CONTRACT_ADDRESS ''getERC20Balance'' [PyStr ''a b'']]"
    by (simp only: s4)
  from a b c d show ?thesis by blast
qed

subsection \<open>The functions behind the tools\<close>

lemma function_names_of_the_abi:
  "function_names SMART_CONTRACT_ABI =
     [''deposit'', ''depositERC20'', ''destroyContract'', ''getBalance'', ''getERC20Balance'',
      ''getCounter'', ''incrementCounter'', ''withdraw'', ''withdrawERC20'']"
  by (simp add: function_names_def SMART_CONTRACT_ABI_def)

lemma tool_names:
  "map name (custom_contract_tools env) =
     [''deposit_eth'', ''deposit_erc20'', ''increment_counter'', ''get_contract_balance'',
      ''get_contract_counter'', ''get_contract_erc20_balance'', ''withdraw'', ''withdraw_erc20'']"
  by (simp add: custom_contract_tools_def)

lemma invoke_functions_called:
  "\<exists>new. calls (snd (invoke_contract_function env function_name args val st)) = calls st @ new \<and>
     set (functions_called new) \<subseteq> {function_name}"
proof -
  obtain rest where
    c: "calls (snd (invoke_contract_function env function_name args val st)) =
          calls st @ Encode_abi function_name (default_args args) # rest"
    and r: "rest = [] \<or>
      (\<exists>data tx.
         encode_abi env SMART_CONTRACT_ADDRESS SMART_CONTRACT_ABI function_name
           (default_args args) = Inr data \<and>
         tx_request data val = Inr tx \<and>
         (rest = [Send_transaction tx] \<or>
          (\<exists>tx_hash. rest = [Send_transaction tx, Wait_for_transaction_receipt tx_hash])))"
    using invoke_calls[of env function_name args val st] by blast
  from r have "functions_called rest = []" by (auto simp: functions_called_def)
  then have "set (functions_called (Encode_abi function_name (default_args args) # rest)) \<subseteq>
      {function_name}"
    by (simp add: functions_called_def)
  with c show ?thesis by blast
qed

lemma read_functions_called:
  "\<exists>new. calls (snd (read_contract_function env function_name args st)) = calls st @ new \<and>
     set (functions_called new) \<subseteq> {function_name}"
proof -
  have "set (functions_called
          [Read_contract SMART_CONTRACT_ADDRESS function_name (default_args args)]) \<subseteq>
      {function_name}"
    by (simp add: functions_called_def)
  then show ?thesis using read_contract_function_calls[of env function_name args st] by blast
qed

lemma no_functions_called:
  "\<exists>new. calls (snd (r, st)) = calls st @ new \<and> set (functions_called new) \<subseteq> {function_name}"
proof -
  have "calls (snd (r, st)) = calls st @ []" by simp
  moreover have "set (functions_called []) \<subseteq> {function_name}" by (simp add: functions_called_def)
  ultimately show ?thesis by blast
qed

lemma deposit_eth_functions_called:
  "\<exists>new. calls (snd (run_tool env ''deposit_eth'' s st)) = calls st @ new \<and>
     set (functions_called new) \<subseteq> {''deposit''}"
proof (cases "float env s")
  case (Inl e)
  then show ?thesis using no_functions_called[of "Inl e" st "''deposit''"]
    by (simp add: run_tool_deposit_eth)
next
  case (Inr x)
  then show ?thesis using invoke_functions_called[of env "''deposit''" None x st]
    by (simp add: run_tool_deposit_eth deposit_to_contract_def)
qed

lemma deposit_erc20_functions_called:
  "\<exists>new. calls (snd (run_tool env ''deposit_erc20'' s st)) = calls st @ new \<and>
     set (functions_called new) \<subseteq> {''depositERC20''}"
proof -
  let ?parts = "str_split (strip s)"
  show ?thesis
  proof (cases "length ?parts \<noteq> 2")
    case True
    then show ?thesis using no_functions_called[of _ st "''depositERC20''"]
      by (simp add: run_tool_deposit_erc20 parse_deposit_erc20_args_def Let_def)
  next
    case len: False
    show ?thesis
    proof (cases "py_int (int_max_str_digits env) (?parts ! 1)")
      case None
      with len show ?thesis using no_functions_called[of _ st "''depositERC20''"]
        by (simp add: run_tool_deposit_erc20 parse_deposit_erc20_args_def Let_def)
    next
      case (Some n)
      with len show ?thesis
        using invoke_functions_called
          [of env "''depositERC20''" "Some [PyStr (?parts ! 0), PyInt n]" "Decimal_nat 0" st]
        by (simp add: run_tool_deposit_erc20 parse_deposit_erc20_args_def Let_def
            deposit_erc20_to_contract_def)
    qed
  qed
qed

lemma withdraw_functions_called:
  "\<exists>new. calls (snd (run_tool env ''withdraw'' s st)) = calls st @ new \<and>
     set (functions_called new) \<subseteq> {''withdraw''}"
proof -
  let ?parts = "str_split (strip s)"
  let ?wei = "case Decimal_str (?parts ! 1) of Inl e \<Rightarrow> Inl e | Inr val \<Rightarrow> to_wei val"
  show ?thesis
  proof (cases "length ?parts \<noteq> 2")
    case True
    then show ?thesis using no_functions_called[of _ st "''withdraw''"]
      by (simp add: run_tool_withdraw parse_withdraw_args_def Let_def)
  next
    case len: False
    show ?thesis
    proof (cases ?wei)
      case (Inl e)
      with len show ?thesis using no_functions_called[of _ st "''withdraw''"]
        by (simp add: run_tool_withdraw parse_withdraw_args_def Let_def)
    next
      case (Inr n)
      with len show ?thesis
        using invoke_functions_called
          [of env "''withdraw''" "Some [PyStr (?parts ! 0), PyInt n]" "Decimal_nat 0" st]
        by (simp add: run_tool_withdraw parse_withdraw_args_def Let_def withdraw_from_contract_def)
    qed
  qed
qed

lemma withdraw_erc20_functions_called:
  "\<exists>new. calls (snd (run_tool env ''withdraw_erc20'' s st)) = calls st @ new \<and>
     set (functions_called new) \<subseteq> {''withdrawERC20''}"
proof -
  let ?parts = "str_split (strip s)"
  show ?thesis
  proof (cases "length ?parts \<noteq> 3")
    case True
    then show ?thesis using no_functions_called[of _ st "''withdrawERC20''"]
      by (simp add: run_tool_withdraw_erc20 parse_withdraw_erc20_args_def Let_def)
  next
    case len: False
    show ?thesis
    proof (cases "py_int (int_max_str_digits env) (?parts ! 2)")
      case None
      with len show ?thesis using no_functions_called[of _ st "''withdrawERC20''"]
        by (simp add: run_tool_withdraw_erc20 parse_withdraw_erc20_args_def Let_def)
    next
      case (Some n)
      with len show ?thesis
        using invoke_functions_called
          [of env "''withdrawERC20''"
            "Some [PyStr (?parts ! 0), PyStr (?parts ! 1), PyInt n]" "Decimal_nat 0" st]
        by (simp add: run_tool_withdraw_erc20 parse_withdraw_erc20_args_def Let_def
            withdraw_erc20_from_contract_def)
    qed
  qed
qed

lemma erc20_balance_functions_called:
  "\<exists>new. calls (snd (run_tool env ''get_contract_erc20_balance'' s st)) = calls st @ new \<and>
     set (functions_called new) \<subseteq> {''getERC20Balance''}"
proof (cases "strip s = []")
  case True
  then show ?thesis using no_functions_called[of _ st "''getERC20Balance''"]
    by (simp add: run_tool_get_contract_erc20_balance parse_erc20_balance_args_def)
next
  case False
  then show ?thesis
    using read_functions_called[of env "''getERC20Balance''" "Some [PyStr (strip s)]" st]
    by (simp add: run_tool_get_contract_erc20_balance parse_erc20_balance_args_def
        get_contract_erc20_balance_def)
qed

lemma tool_functions_bound:
  assumes "n \<in> set (map name (custom_contract_tools env))"
  shows "underlying_function n \<in> set (function_names SMART_CONTRACT_ABI) \<and>
   (\<exists>new. calls (snd (run_tool env n s st)) = calls st @ new \<and>
          set (functions_called new) \<subseteq> {underlying_function n})"
proof -
  from assms
  have "n = ''deposit_eth'' \<or> n = ''deposit_erc20'' \<or> n = ''increment_counter'' \<or>
      n = ''get_contract_balance'' \<or> n = ''get_contract_counter'' \<or>
      n = ''get_contract_erc20_balance'' \<or> n = ''withdraw'' \<or> n = ''withdraw_erc20''"
    by (simp only: tool_names list.set insert_iff empty_iff simp_thms)
  then show ?thesis
  proof (elim disjE)
    assume "n = ''deposit_eth''"
    then show ?thesis
      using deposit_eth_functions_called[of env s st]
      by (simp add: underlying_function_def function_names_of_the_abi)
  next
    assume "n = ''deposit_erc20''"
    then show ?thesis
      using deposit_erc20_functions_called[of env s st]
      by (simp add: underlying_function_def function_names_of_the_abi)
  next
    assume "n = ''increment_counter''"
    then show ?thesis
      using invoke_functions_called[of env "''incrementCounter''" None "Decimal_nat 0" st]
      by (simp add: underlying_function_def function_names_of_the_abi
          run_tool_increment_counter increment_counter_def)
  next
    assume "n = ''get_contract_balance''"
    then show ?thesis
      using read_functions_called[of env "''getBalance''" None st]
      by (simp add: underlying_function_def function_names_of_the_abi
          run_tool_get_contract_balance get_contract_balance_def)
  next
    assume "n = ''get_contract_counter''"
    then show ?thesis
      using read_functions_called[of env "''getCounter''" None st]
      by (simp add: underlying_function_def function_names_of_the_abi
          run_tool_get_contract_counter get_contract_counter_def)
  next
    assume "n = ''get_contract_erc20_balance''"
    then show ?thesis
      using erc20_balance_functions_called[of env s st]
      by (simp add: underlying_function_def function_names_of_the_abi)
  next
    assume "n = ''withdraw''"
    then show ?thesis
      using withdraw_functions_called[of env s st]
      by (simp add: underlying_function_def function_names_of_the_abi)
  next
    assume "n = ''withdraw_erc20''"
    then show ?thesis
      using withdraw_erc20_functions_called[of env s st]
      by (simp add: underlying_function_def function_names_of_the_abi)
  qed
qed

text \<open>The first call of each tool whose input is accepted.\<close>

lemma deposit_eth_first_call:
  assumes "float env s = Inr x"
  shows "\<exists>rest. calls (snd (run_tool env ''deposit_eth'' s st)) =
     calls st @ Encode_abi ''deposit'' [] # rest"
  using assms invoke_calls_encode_first[of env "''deposit''" None x st]
  by (simp add: run_tool_deposit_eth deposit_to_contract_def default_args_def)

lemma deposit_erc20_first_call:
  assumes "str_split (strip s) = [token_addr, amount_str]"
    and "py_int (int_max_str_digits env) amount_str = Some k"
  shows "\<exists>rest. calls (snd (run_tool env ''deposit_erc20'' s st)) =
     calls st @ Encode_abi ''depositERC20'' [PyStr token_addr, PyInt k] # rest"
  using assms invoke_calls_encode_first
    [of env "''depositERC20''" "Some [PyStr token_addr, PyInt k]" "Decimal_nat 0" st]
  by (simp add: run_tool_deposit_erc20 parse_deposit_erc20_args_def
      deposit_erc20_to_contract_def default_args_def)

lemma increment_counter_first_call:
  "\<exists>rest. calls (snd (run_tool env ''increment_counter'' s st)) =
     calls st @ Encode_abi ''incrementCounter'' [] # rest"
  using invoke_calls_encode_first[of env "''incrementCounter''" None "Decimal_nat 0" st]
  by (simp add: run_tool_increment_counter increment_counter_def default_args_def)

lemma get_contract_balance_call:
  "calls (snd (run_tool env ''get_contract_balance'' s st)) =
     calls st @ [Read_contract SMART_CONTRACT_ADDRESS ''getBalance'' []]"
  by (simp add: run_tool_get_contract_balance get_contract_balance_def
      read_contract_function_calls default_args_def)

lemma get_contract_counter_call:
  "calls (snd (run_tool env ''get_contract_counter'' s st)) =
     calls st @ [Read_contract SMART_CONTRACT_ADDRESS ''getCounter'' []]"
  by (simp add: run_tool_get_contract_counter get_contract_counter_def
      read_contract_function_calls default_args_def)

lemma get_contract_erc20_balance_call:
  assumes "strip s \<noteq> []"
  shows "calls (snd (run_tool env ''get_contract_erc20_balance'' s st)) =
     calls st @ [Read_contract SMART_CONTRACT_ADDRESS ''getERC20Balance'' [PyStr (strip s)]]"
  using assms
  by (simp add: run_tool_get_contract_erc20_balance parse_erc20_balance_args_def
      get_contract_erc20_balance_def read_contract_function_calls default_args_def)

lemma withdraw_first_call:
  assumes "str_split (strip s) = [to_addr, amount_eth_str]"
    and "Decimal_str amount_eth_str = Inr val" and "to_wei val = Inr amount_wei"
  shows "\<exists>rest. calls (snd (run_tool env ''withdraw'' s st)) =
     calls st @ Encode_abi ''withdraw'' [PyStr to_addr, PyInt amount_wei] # rest"
  using assms invoke_calls_encode_first
    [of env "''withdraw''" "Some [PyStr to_addr, PyInt amount_wei]" "Decimal_nat 0" st]
  by (simp add: run_tool_withdraw parse_withdraw_args_def withdraw_from_contract_def
      default_args_def)

lemma withdraw_erc20_first_call:
  assumes "str_split (strip s) = [token_addr, to_addr, amount_str]"
    and "py_int (int_max_str_digits env) amount_str = Some k"
  shows "\<exists>rest. calls (snd (run_tool env ''withdraw_erc20'' s st)) =
     calls st @
       Encode_abi ''withdrawERC20'' [PyStr token_addr, PyStr to_addr, PyInt k] # rest"
  using assms invoke_calls_encode_first
    [of env "''withdrawERC20''" "Some [PyStr token_addr, PyStr to_addr, PyInt k]"
      "Decimal_nat 0" st]
  by (simp add: run_tool_withdraw_erc20 parse_withdraw_erc20_args_def
      withdraw_erc20_from_contract_def default_args_def)

text \<open>
  C5 as the specification states it fails in its second half: nothing checks a function
  name against the descriptor before the first use. \<^verbatim>\<open>invoke_contract_function\<close> takes the
  name \<^verbatim>\<open>mint\<close>, which is no function of \<^verbatim>\<open>SMART_CONTRACT_ABI\<close>, and hands it to
  \<^verbatim>\<open>encode_abi\<close>; the mismatch shows there, at the call, and comes back as a text.
\<close>

theorem no_startup_check_counterexample:
  "''mint'' \<notin> set (function_names SMART_CONTRACT_ABI) \<and>
   invoke_contract_function resolving_env ''mint'' None (Decimal_nat 0) st0 =
     (Inr (PyStr ''Error calling mint: function not found in the ABI''),
      \<lparr>calls = [Encode_abi ''mint'' []], chain = 0\<rparr>)"
proof -
  have a: "''mint'' \<notin> set (function_names SMART_CONTRACT_ABI)"
    by (simp add: function_names_of_the_abi)
  then have "encode_abi resolving_env SMART_CONTRACT_ADDRESS SMART_CONTRACT_ABI ''mint''
      (default_args None) = Inl (Exc ''ABIFunctionNotFound'' ''function not found in the ABI'')"
    by (simp add: resolving_env_def demo_env_def)
  from invoke_encode_raises[OF this, of "Decimal_nat 0" st0] a
  show ?thesis by (simp add: default_args_def st0_def)
qed

text \<open>
  C5, amended. Each of the eight tools of \<^verbatim>\<open>custom_contract_tools\<close> is bound to the
  function that the table of the specification names for it, and that function is one of
  the functions of \<^verbatim>\<open>SMART_CONTRACT_ABI\<close>: (1) every function name the tool ever hands to
  \<^verbatim>\<open>encode_abi\<close> or \<^verbatim>\<open>read_contract\<close> is that name, and (2 to 9) whenever the tool accepts
  its input, the first call it makes names that function. The source checks none of this
  when the list is built, which makes no call (11): both helpers hand whatever name they
  are given to the collaborator (10, 12), and a name that \<^verbatim>\<open>encode_abi\<close> does not resolve
  fails there, at first use, as the text \<^verbatim>\<open>Error calling {function_name}: {str(e)}\<close> (13).
\<close>

theorem tool_functions_resolve_at_first_use:
  "(n \<in> set (map name (custom_contract_tools env)) \<longrightarrow>
      underlying_function n \<in> set (function_names SMART_CONTRACT_ABI) \<and>
      (\<exists>new. calls (snd (run_tool env n s st)) = calls st @ new \<and>
             set (functions_called new) \<subseteq> {underlying_function n})) \<and>
   (float env s = Inr x \<longrightarrow>
      (\<exists>rest. calls (snd (run_tool env ''deposit_eth'' s st)) =
         calls st @ Encode_abi ''deposit'' [] # rest)) \<and>
   (str_split (strip s) = [token_addr, amount_str] \<and>
    py_int (int_max_str_digits env) amount_str = Some k \<longrightarrow>
      (\<exists>rest. calls (snd (run_tool env ''deposit_erc20'' s st)) =
         calls st @ Encode_abi ''depositERC20'' [PyStr token_addr, PyInt k] # rest)) \<and>
   (\<exists>rest. calls (snd (run_tool env ''increment_counter'' s st)) =
      calls st @ Encode_abi ''incrementCounter'' [] # rest) \<and>
   calls (snd (run_tool env ''get_contract_balance'' s st)) =
     calls st @ [Read_contract SMART_CONTRACT_ADDRESS ''getBalance'' []] \<and>
   calls (snd (run_tool env ''get_contract_counter'' s st)) =
     calls st @ [Read_contract SMART_CONTRACT_ADDRESS ''getCounter'' []] \<and>
   (strip s \<noteq> [] \<longrightarrow>
      calls (snd (run_tool env ''get_contract_erc20_balance'' s st)) =
        calls st @
          [Read_contract SMART_CONTRACT_ADDRESS ''getERC20Balance'' [PyStr (strip s)]]) \<and>
   (str_split (strip s) = [to_addr, amount_eth_str] \<and>
    Decimal_str amount_eth_str = Inr val \<and> to_wei val = Inr amount_wei \<longrightarrow>
      (\<exists>rest. calls (snd (run_tool env ''withdraw'' s st)) =
         calls st @ Encode_abi ''withdraw'' [PyStr to_addr, PyInt amount_wei] # rest)) \<and>
   (str_split (strip s) = [token_addr, to_addr, amount_str] \<and>
    py_int (int_max_str_digits env) amount_str = Some k \<longrightarrow>
      (\<exists>rest. calls (snd (run_tool env ''withdraw_erc20'' s st)) =
         calls st @
           Encode_abi ''withdrawERC20'' [PyStr token_addr, PyStr to_addr, PyInt k] # rest)) \<and>
   (\<exists>rest. calls (snd (invoke_contract_function env function_name args v st)) =
      calls st @ Encode_abi function_name (default_args args) # rest) \<and>
   map name (custom_contract_tools env) =
     [''deposit_eth'', ''deposit_erc20'', ''increment_counter'', ''get_contract_balance'',
      ''get_contract_counter'', ''get_contract_erc20_balance'', ''withdraw'', ''withdraw_erc20''] \<and>
   calls (snd (read_contract_function env function_name args st)) =
     calls st @ [Read_contract SMART_CONTRACT_ADDRESS function_name (default_args args)] \<and>
   (encode_abi env SMART_CONTRACT_ADDRESS SMART_CONTRACT_ABI function_name
      (default_args args) = Inl e \<longrightarrow>
      invoke_contract_function env function_name args v st =
        (Inr (PyStr (''Error calling '' @ function_name @ '': '' @ str_exc e)),
         \<lparr>calls = calls st @ [Encode_abi function_name (default_args args)],
          chain = chain st\<rparr>))"
proof (intro conjI impI)
  assume "n \<in> set (map name (custom_contract_tools env))"
  then show "underlying_function n \<in> set (function_names SMART_CONTRACT_ABI)"
    and "\<exists>new. calls (snd (run_tool env n s st)) = calls st @ new \<and>
           set (functions_called new) \<subseteq> {underlying_function n}"
    using tool_functions_bound[of n env s st] by simp_all
next
  assume "float env s = Inr x"
  then show "\<exists>rest. calls (snd (run_tool env ''deposit_eth'' s st)) =
      calls st @ Encode_abi ''deposit'' [] # rest"
    by (rule deposit_eth_first_call)
next
  assume "str_split (strip s) = [token_addr, amount_str] \<and>
    py_int (int_max_str_digits env) amount_str = Some k"
  then show "\<exists>rest. calls (snd (run_tool env ''deposit_erc20'' s st)) =
      calls st @ Encode_abi ''depositERC20'' [PyStr token_addr, PyInt k] # rest"
    using deposit_erc20_first_call by blast
next
  show "\<exists>rest. calls (snd (run_tool env ''increment_counter'' s st)) =
      calls st @ Encode_abi ''incrementCounter'' [] # rest"
    by (rule increment_counter_first_call)
next
  show "calls (snd (run_tool env ''get_contract_balance'' s st)) =
      calls st @ [Read_contract SMART_CONTRACT_ADDRESS ''getBalance'' []]"
    by (rule get_contract_balance_call)
next
  show "calls (snd (run_tool env ''get_contract_counter'' s st)) =
      calls st @ [Read_contract SMART_CONTRACT_ADDRESS ''getCounter'' []]"
    by (rule get_contract_counter_call)
next
  assume "strip s \<noteq> []"
  then show "calls (snd (run_tool env ''get_contract_erc20_balance'' s st)) =
      calls st @ [Read_contract SMART_CONTRACT_ADDRESS ''getERC20Balance'' [PyStr (strip s)]]"
    by (rule get_contract_erc20_balance_call)
next
  assume "str_split (strip s) = [to_addr, amount_eth_str] \<and>
    Decimal_str amount_eth_str = Inr val \<and> to_wei val = Inr amount_wei"
  then show "\<exists>rest. calls (snd (run_tool env ''withdraw'' s st)) =
      calls st @ Encode_abi ''withdraw'' [PyStr to_addr, PyInt amount_wei] # rest"
    using withdraw_first_call by blast
next
  assume "str_split (strip s) = [token_addr, to_addr, amount_str] \<and>
    py_int (int_max_str_digits env) amount_str = Some k"
  then show "\<exists>rest. calls (snd (run_tool env ''withdraw_erc20'' s st)) =
      calls st @
        Encode_abi ''withdrawERC20'' [PyStr token_addr, PyStr to_addr, PyInt k] # rest"
    using withdraw_erc20_first_call by blast
next
  show "\<exists>rest. calls (snd (invoke_contract_function env function_name args v st)) =
      calls st @ Encode_abi function_name (default_args args) # rest"
    by (rule invoke_calls_encode_first)
next
  show "map name (custom_contract_tools env) =
     [''deposit_eth'', ''deposit_erc20'', ''increment_counter'', ''get_contract_balance'',
      ''get_contract_counter'', ''get_contract_erc20_balance'', ''withdraw'', ''withdraw_erc20'']"
    by (rule tool_names)
next
  show "calls (snd (read_contract_function env function_name args st)) =
      calls st @ [Read_contract SMART_CONTRACT_ADDRESS function_name (default_args args)]"
    by (rule read_contract_function_calls)
next
  assume "encode_abi env SMART_CONTRACT_ADDRESS SMART_CONTRACT_ABI function_name
      (default_args args) = Inl e"
  then show "invoke_contract_function env function_name args v st =
      (Inr (PyStr (''Error calling '' @ function_name @ '': '' @ str_exc e)),
       \<lparr>calls = calls st @ [Encode_abi function_name (default_args args)],
        chain = chain st\<rparr>)"
    by (rule invoke_encode_raises)
qed

theorem tool_functions_resolve_at_first_use_witness:
  "''withdraw_erc20'' \<in> set (map name (custom_contract_tools resolving_env)) \<and>
   underlying_function ''withdraw_erc20'' = ''withdrawERC20'' \<and>
   ''withdrawERC20'' \<in> set (function_names SMART_CONTRACT_ABI) \<and>
   (\<exists>rest. calls (snd (run_tool resolving_env ''withdraw_erc20'' ''0xToken 0xReceiver 100'' st0)) =
      calls st0 @
        Encode_abi ''withdrawERC20'' [PyStr ''0xToken'', PyStr ''0xReceiver'', PyInt 100] #
        rest) \<and>
   (\<exists>rest. calls (snd (run_tool resolving_env ''deposit_eth'' ''0.0001'' st0)) =
      calls st0 @ Encode_abi ''deposit'' [] # rest) \<and>
   calls (snd (run_tool resolving_env ''get_contract_erc20_balance'' ''0xToken'' st0)) =
     calls st0 @ [Read_contract SMART_CONTRACT_ADDRESS ''getERC20Balance'' [PyStr ''0xToken'']] \<and>
   invoke_contract_function resolving_env ''mint'' None (Decimal_nat 0) st0 =
     (Inr (PyStr (''Error calling '' @ ''mint'' @ '': '' @
                  str_exc (Exc ''ABIFunctionNotFound'' ''function not found in the ABI''))),
      \<lparr>calls = calls st0 @ [Encode_abi ''mint'' (default_args None)], chain = chain st0\<rparr>)"
proof -
  let ?bad = "Exc ''ABIFunctionNotFound'' ''function not found in the ABI''"
  note bound = tool_functions_resolve_at_first_use
    [where env = resolving_env and st = st0 and function_name = "''mint''" and args = None
      and v = "Decimal_nat 0" and e = ?bad and x = "Finite False 1 (- 4)"
      and token_addr = "''0xToken''" and to_addr = "''0xReceiver''" and amount_str = "''100''"
      and k = 100 and amount_eth_str = "[]" and val = "NaN False" and amount_wei = 0]
  have m: "int_max_str_digits resolving_env = 4300"
    by (simp add: resolving_env_def demo_env_def)
  have i: "py_int 4300 ''100'' = Some 100" by code_simp
  have f: "float resolving_env ''0.0001'' = Inr (Finite False 1 (- 4))"
    by (simp add: resolving_env_def demo_env_def demo_float_def)
  have t: "strip ''0xToken'' = ''0xToken''" by code_simp
  have t0: "strip ''0xToken'' \<noteq> []" by (simp add: t)
  have a: "''withdraw_erc20'' \<in> set (map name (custom_contract_tools resolving_env))"
    by (simp add: tool_names)
  have u: "underlying_function ''withdraw_erc20'' = ''withdrawERC20''"
    by (simp add: underlying_function_def)
  have h3: "str_split (strip ''0xToken 0xReceiver 100'') = [''0xToken'', ''0xReceiver'', ''100''] \<and>
      py_int (int_max_str_digits resolving_env) ''100'' = Some 100"
    by (simp add: split_three_tokens m i)
  have "''mint'' \<notin> set (function_names SMART_CONTRACT_ABI)"
    by (simp add: function_names_of_the_abi)
  then have enc: "encode_abi resolving_env SMART_CONTRACT_ADDRESS SMART_CONTRACT_ABI ''mint''
      (default_args None) = Inl ?bad"
    by (simp add: resolving_env_def demo_env_def)
  have b: "''withdrawERC20'' \<in> set (function_names SMART_CONTRACT_ABI)"
    using bound[where n = "''withdraw_erc20''" and s = "[]", THEN conjunct1, THEN mp, OF a,
        THEN conjunct1]
    by (simp only: u)
  have c: "\<exists>rest. calls (snd (run_tool resolving_env ''withdraw_erc20''
                                 ''0xToken 0xReceiver 100'' st0)) =
      calls st0 @
        Encode_abi ''withdrawERC20'' [PyStr ''0xToken'', PyStr ''0xReceiver'', PyInt 100] #
        rest"
    by (rule bound[where n = "[]" and s = "''0xToken 0xReceiver 100''", THEN conjunct2, THEN conjunct2, THEN conjunct2, THEN conjunct2, THEN conjunct2, THEN conjunct2, THEN conjunct2, THEN conjunct2,
        THEN conjunct1, THEN mp, OF h3])
  have d: "\<exists>rest. calls (snd (run_tool resolving_env ''deposit_eth'' ''0.0001'' st0)) =
      calls st0 @ Encode_abi ''deposit'' [] # rest"
    by (rule bound[where n = "[]" and s = "''0.0001''", THEN conjunct2, THEN conjunct1,
        THEN mp, OF f])
  have "calls (snd (run_tool resolving_env ''get_contract_erc20_balance'' ''0xToken'' st0)) =
      calls st0 @
        [Read_contract SMART_CONTRACT_ADDRESS ''getERC20Balance'' [PyStr (strip ''0xToken'')]]"
    by (rule bound[where n = "[]" and s = "''0xToken''", THEN conjunct2, THEN conjunct2, THEN conjunct2, THEN conjunct2, THEN conjunct2, THEN conjunct2,
        THEN conjunct1, THEN mp, OF t0])
  then have g: "calls (snd (run_tool resolving_env ''get_contract_erc20_balance''
                              ''0xToken'' st0)) =
      calls st0 @ [Read_contract SMART_CONTRACT_ADDRESS ''getERC20Balance'' [PyStr ''0xToken'']]"
    by (simp only: t)
  have h: "invoke_contract_function resolving_env ''mint'' None (Decimal_nat 0) st0 =
      (Inr (PyStr (''Error calling '' @ ''mint'' @ '': '' @ str_exc ?bad)),
       \<lparr>calls = calls st0 @ [Encode_abi ''mint'' (default_args None)], chain = chain st0\<rparr>)"
    by (rule bound[where n = "[]" and s = "[]", THEN conjunct2, THEN conjunct2, THEN conjunct2, THEN conjunct2, THEN conjunct2, THEN conjunct2, THEN conjunct2, THEN conjunct2, THEN conjunct2, THEN conjunct2, THEN conjunct2, THEN conjunct2,
        THEN mp, OF enc])
  from a u b c d g h show ?thesis by (intro conjI)
qed

subsection \<open>Digits and powers of ten\<close>











subsection \<open>The product with \<open>10\<^sup>1\<^sup>8\<close> under 28 digits of precision\<close>








subsection \<open>Plain decimal literals\<close>


lemma is_digit_not_point: "is_digit c \<Longrightarrow> c \<noteq> CHR ''.''"
  by (auto simp: is_digit_def)










subsection \<open>The request of a transaction\<close>



subsection \<open>The value field of the request\<close>






subsection \<open>Ether amounts in wei\<close>






end
